theory Spec2Isabelle
  imports Main
begin

section \<open>Data model of package command\<close>

text \<open>
  The embedding follows \<^verbatim>\<open>command/command.go\<close>. Go strings are byte strings
  (\<^typ>\<open>string\<close>). The SDK structures hold their fields behind pointers
  (\<^verbatim>\<open>aws.StringValue\<close>); the fields the code dereferences are taken to be
  set, as the SDK sets them in every answer, so a field is modelled by its value.
  A function that returns a pointer together with an error, \<^verbatim>\<open>(*T, error)\<close>,
  returns a sum (\<open>Inl\<close> the error, the pointer is nil then); a function that
  returns a value together with an error returns a pair whose second component is
  \<open>None\<close> for the nil error.
\<close>

text \<open>The package's error values, and the errors of the libraries it calls.\<close>

datatype error =
    ErrDBInstancetNotFound
  | ErrSnapshotNotFound
  | ErrDriverNotFound
  | ErrRdsTypesNotFound
  | ErrRdsARNsNotFound
  | External string

record Tag =
  Key :: string
  Value :: string

record DBInstance =
  DBInstanceIdentifier :: string
  DBInstanceStatus :: string
  DBSubnetGroupName :: string
  StorageType :: string

record DBSnapshot =
  DBSnapshotIdentifier :: string
  Status :: string

text \<open>
  The dynamic type of an \<^verbatim>\<open>interface{}\<close> argument. The functions of the
  package switch on it: on the struct values in \<^verbatim>\<open>getARNString\<close>, on the
  pointers in \<^verbatim>\<open>WaitForStatusAvailable\<close>, on the slices in
  \<^verbatim>\<open>DeleteDBResources\<close>; each switch has a default branch.
\<close>

datatype rdstypes =
    V_DBSnapshot DBSnapshot
  | V_DBInstance DBInstance
  | P_DBSnapshot DBSnapshot
  | P_DBInstance DBInstance
  | L_DBSnapshot "DBSnapshot list"
  | L_DBInstance "DBInstance list"
  | V_Other

text \<open>The request messages the code fills in.\<close>

record DescribeDBInstancesMessage =
  di_DBInstanceIdentifier :: "string option"

record DescribeDBSnapshotsMessage =
  ds_DBInstanceIdentifier :: "string option"
  ds_DBSnapshotIdentifier :: "string option"

record RestoreDBInstanceFromDBSnapshotMessage =
  rm_DBInstanceClass :: string
  rm_DBInstanceIdentifier :: string
  rm_MultiAZ :: bool
  rm_DBSnapshotIdentifier :: string
  rm_DBSubnetGroupName :: string
  rm_StorageType :: string
  rm_Tags :: "Tag list"

record CreateDBSnapshotMessage =
  cm_DBInstanceIdentifier :: string
  cm_DBSnapshotIdentifier :: string
  cm_Tags :: "Tag list"

record DeleteDBInstanceMessage =
  dm_DBInstanceIdentifier :: string
  dm_SkipFinalSnapshot :: bool

text \<open>
  The remote service behind \<^verbatim>\<open>c.RDSClient\<close>: what it answers to each request,
  \<open>Inl\<close> with the message of the error when the call fails.
\<close>

record RDSClient =
  client_DescribeDBInstances :: "DescribeDBInstancesMessage \<Rightarrow> string + DBInstance list"
  client_DescribeDBSnapshots :: "DescribeDBSnapshotsMessage \<Rightarrow> string + DBSnapshot list"
  client_ListTagsForResource :: "string \<Rightarrow> string + Tag list"
  client_RestoreDBInstanceFromDBSnapshot ::
    "RestoreDBInstanceFromDBSnapshotMessage \<Rightarrow> string + DBInstance"
  client_CreateDBSnapshot :: "CreateDBSnapshotMessage \<Rightarrow> string + DBSnapshot"
  client_DeleteDBInstance :: "DeleteDBInstanceMessage \<Rightarrow> string + DBInstance"
  client_DeleteDBSnapshot :: "string \<Rightarrow> string + DBSnapshot"

record OutConfig =
  cfg_File :: bool
  cfg_Root :: string
  cfg_Bom :: bool

record RDSConfig =
  User :: string
  Pass :: string

record Command =
  OutConfig :: OutConfig
  RDSConfig :: RDSConfig
  RDSClient :: RDSClient
  ARNPrefix :: string

text \<open>
  Package \<^verbatim>\<open>utils\<close> is not part of the sources at hand; the functions the
  code calls are parameters. \<open>GetFormatedTime\<close> depends on the moment of the
  call, given as the number of clock readings made so far.
\<close>

record utils =
  GetFormatedAppName :: string
  GetFormatedTime :: "nat \<Rightarrow> string"
  GetHomeDir :: string
  GetFormatedDBDisplayName :: "string \<Rightarrow> string"

text \<open>
  What the code does to the world outside: the calls that change the remote service,
  the database connection and the file system, and the lines it logs around them, in
  the order they happen. Describe and list-tags calls only read: they are modelled by
  their answers.
\<close>

datatype call =
    CallRestoreDBInstanceFromDBSnapshot RestoreDBInstanceFromDBSnapshotMessage
  | CallCreateDBSnapshot CreateDBSnapshotMessage
  | CallDeleteDBInstance DeleteDBInstanceMessage
  | CallDeleteDBSnapshot string
  | LogErrorf string "string list"
  | LogInfof string "string list"
  | SqlOpen string string
  | DbQuery string
  | DbClose
  | RowsClose
  | OsOpenFile string
  | FileTruncate
  | CsvWrite "string list"
  | CsvFlush
  | FileClose

section \<open>Strings\<close>

text \<open>\<^verbatim>\<open>strings.HasPrefix\<close> and \<^verbatim>\<open>strings.Contains\<close>.\<close>

definition HasPrefix :: "string \<Rightarrow> string \<Rightarrow> bool" where
  "HasPrefix s pre = (length pre \<le> length s \<and> take (length pre) s = pre)"

fun Contains :: "string \<Rightarrow> string \<Rightarrow> bool" where
  "Contains [] substr = (substr = [])"
| "Contains (ch # s) substr = (HasPrefix (ch # s) substr \<or> Contains s substr)"

text \<open>
  \<^verbatim>\<open>strings.ToLower\<close> on the ASCII letters. The four driver names contain
  neither \<open>i\<close> nor \<open>k\<close>, the only ASCII letters that are the lower case of a
  character outside ASCII, so the bytes beyond ASCII play no part in the match.
\<close>

definition lower_char :: "char \<Rightarrow> char" where
  "lower_char ch =
     (if 65 \<le> (of_char ch :: nat) \<and> (of_char ch :: nat) \<le> 90
      then char_of ((of_char ch :: nat) + 32) else ch)"

definition ToLower :: "string \<Rightarrow> string" where
  "ToLower s = map lower_char s"

text \<open>The verb \<^verbatim>\<open>%d\<close> of \<^verbatim>\<open>fmt.Sprintf\<close>.\<close>

fun digits :: "nat \<Rightarrow> string" where
  "digits n =
     (if n < 10 then [char_of (48 + n)]
      else digits (n div 10) @ [char_of (48 + n mod 10)])"

definition itoa :: "int \<Rightarrow> string" where
  "itoa i = (if i < 0 then CHR ''-'' # digits (nat (- i)) else digits (nat i))"

section \<open>Tag registry\<close>

definition rt_name_text :: string where
  "rt_name_text = ''rt_name''"

definition rt_time_text :: string where
  "rt_time_text = ''rt_time''"

definition getSpecifyTags :: "utils \<Rightarrow> nat \<Rightarrow> Tag list" where
  "getSpecifyTags u now =
     (let tag_list = [];
          tag = \<lparr>Key = rt_name_text, Value = GetFormatedAppName u\<rparr>;
          tag_list = tag_list @ [tag];
          tag = \<lparr>Key = rt_time_text, Value = GetFormatedTime u now\<rparr>;
          tag_list = tag_list @ [tag]
      in tag_list)"

definition getARNString :: "Command \<Rightarrow> rdstypes \<Rightarrow> string" where
  "getARNString c x =
     (case x of
        V_DBSnapshot rdstype \<Rightarrow> ARNPrefix c @ ''snapshot:'' @ DBSnapshotIdentifier rdstype
      | V_DBInstance rdstype \<Rightarrow> ARNPrefix c @ ''db:'' @ DBInstanceIdentifier rdstype
      | _ \<Rightarrow> [])"

text \<open>The loop over the tag list of \<^verbatim>\<open>checkListTagsForResourceMessage\<close>.\<close>

fun count_tags :: "utils \<Rightarrow> Tag list \<Rightarrow> nat \<Rightarrow> nat" where
  "count_tags u [] tag_cnt = tag_cnt"
| "count_tags u (tag # rest) tag_cnt =
     count_tags u rest
       (if Key tag = rt_name_text
        then (if HasPrefix (Value tag) (GetFormatedAppName u) then tag_cnt + 1 else tag_cnt)
        else if Key tag = rt_time_text then tag_cnt + 1
        else tag_cnt)"

definition checkListTagsForResourceMessage ::
  "utils \<Rightarrow> Command \<Rightarrow> rdstypes \<Rightarrow> bool \<times> error option" where
  "checkListTagsForResourceMessage u c x =
     (let state = False in
      case client_ListTagsForResource (RDSClient c) (getARNString c x) of
        Inl err \<Rightarrow> (state, Some (External err))
      | Inr TagList \<Rightarrow>
          if length TagList \<le> 0 then (state, None)
          else let tag_cnt = count_tags u TagList 0 in
            if tag_cnt \<ge> 2 then (True, None) else (state, None))"

definition describeDBInstances ::
  "Command \<Rightarrow> DescribeDBInstancesMessage \<Rightarrow> error + DBInstance list" where
  "describeDBInstances c message =
     (case client_DescribeDBInstances (RDSClient c) message of
        Inl err \<Rightarrow> Inl (External err)
      | Inr DBInstances \<Rightarrow> Inr DBInstances)"

definition describeDBSnapshots ::
  "Command \<Rightarrow> DescribeDBSnapshotsMessage \<Rightarrow> error + DBSnapshot list" where
  "describeDBSnapshots c message =
     (case client_DescribeDBSnapshots (RDSClient c) message of
        Inl err \<Rightarrow> Inl (External err)
      | Inr DBSnapshots \<Rightarrow> Inr DBSnapshots)"

text \<open>
  The loop of \<^verbatim>\<open>DescribeDBInstancesByTags\<close> and of
  \<^verbatim>\<open>DescribeDBSnapshotsByTags\<close>, which differ in the type of the elements only
  (\<open>wrap\<close> passes the element as \<^verbatim>\<open>interface{}\<close>).
\<close>

fun by_tags_loop ::
  "utils \<Rightarrow> Command \<Rightarrow> ('a \<Rightarrow> rdstypes) \<Rightarrow> 'a list \<Rightarrow> 'a list \<Rightarrow> 'a list \<times> error option" where
  "by_tags_loop u c wrap [] acc = (acc, None)"
| "by_tags_loop u c wrap (x # rest) acc =
     (case checkListTagsForResourceMessage u c (wrap x) of
        (state, Some err) \<Rightarrow> ([], Some err)
      | (state, None) \<Rightarrow> by_tags_loop u c wrap rest (if state then acc @ [x] else acc))"

definition DescribeDBInstancesByTags :: "utils \<Rightarrow> Command \<Rightarrow> DBInstance list \<times> error option" where
  "DescribeDBInstancesByTags u c =
     (let message = \<lparr>di_DBInstanceIdentifier = None\<rparr> in
      case describeDBInstances c message of
        Inl err \<Rightarrow> ([], Some err)
      | Inr resp \<Rightarrow> by_tags_loop u c V_DBInstance resp [])"

definition DescribeDBSnapshotsByTags :: "utils \<Rightarrow> Command \<Rightarrow> DBSnapshot list \<times> error option" where
  "DescribeDBSnapshotsByTags u c =
     (let message = \<lparr>ds_DBInstanceIdentifier = None, ds_DBSnapshotIdentifier = None\<rparr> in
      case describeDBSnapshots c message of
        Inl err \<Rightarrow> ([], Some err)
      | Inr resp \<Rightarrow> by_tags_loop u c V_DBSnapshot resp [])"

section \<open>Describing one resource\<close>

definition DescribeDBInstance :: "Command \<Rightarrow> string \<Rightarrow> error + DBInstance" where
  "DescribeDBInstance c dbIdentifier =
     (let message = \<lparr>di_DBInstanceIdentifier = Some dbIdentifier\<rparr> in
      case describeDBInstances c message of
        Inl err \<Rightarrow> Inl err
      | Inr resp \<Rightarrow>
          let db_len = length resp in
          if db_len < 1 then Inl ErrDBInstancetNotFound else Inr (resp ! (db_len - 1)))"

definition DescribeDBSnapshot :: "Command \<Rightarrow> string \<Rightarrow> error + DBSnapshot" where
  "DescribeDBSnapshot c snapshotIdentifier =
     (let message = \<lparr>ds_DBInstanceIdentifier = None,
                      ds_DBSnapshotIdentifier = Some snapshotIdentifier\<rparr> in
      case describeDBSnapshots c message of
        Inl err \<Rightarrow> Inl err
      | Inr resp \<Rightarrow>
          let db_len = length resp in
          if db_len < 1 then Inl ErrSnapshotNotFound else Inr (resp ! (db_len - 1)))"

text \<open>The filter loop of \<^verbatim>\<open>DescribeLatestDBSnapshot\<close>.\<close>

fun available_loop :: "DBSnapshot list \<Rightarrow> DBSnapshot list \<Rightarrow> DBSnapshot list" where
  "available_loop [] dbSnapshots = dbSnapshots"
| "available_loop (snapshot # rest) dbSnapshots =
     (if Status snapshot \<noteq> ''available'' then available_loop rest dbSnapshots
      else available_loop rest (dbSnapshots @ [snapshot]))"

definition DescribeLatestDBSnapshot :: "Command \<Rightarrow> string \<Rightarrow> error + DBSnapshot" where
  "DescribeLatestDBSnapshot c dbIdentifier =
     (let message = \<lparr>ds_DBInstanceIdentifier = Some dbIdentifier,
                      ds_DBSnapshotIdentifier = None\<rparr> in
      case describeDBSnapshots c message of
        Inl err \<Rightarrow> Inl err
      | Inr resp \<Rightarrow>
          let dbSnapshots = available_loop resp [];
              db_len = length dbSnapshots in
          if db_len < 1 then Inl ErrSnapshotNotFound
          else Inr (dbSnapshots ! (db_len - 1)))"

section \<open>Creating and deleting resources\<close>

text \<open>\<^verbatim>\<open>Error()\<close> of the package's errors; two of the texts hold U+3000.\<close>

definition Error :: "error \<Rightarrow> string" where
  "Error err =
     (case err of
        ErrDBInstancetNotFound \<Rightarrow> ''DB Instance is not found''
      | ErrSnapshotNotFound \<Rightarrow> ''DB'' @ [CHR 0xE3, CHR 0x80, CHR 0x80] @ ''Snapshot is not found''
      | ErrDriverNotFound \<Rightarrow> ''DB'' @ [CHR 0xE3, CHR 0x80, CHR 0x80] @ ''Driver is not found''
      | ErrRdsTypesNotFound \<Rightarrow> ''RDS Types is not found''
      | ErrRdsARNsNotFound \<Rightarrow> ''RDS ARN Types is not found''
      | External msg \<Rightarrow> msg)"

record RestoreDBInstanceFromDBSnapshotArgs =
  DBInstanceClass :: string
  DBIdentifier :: string
  MultiAZ :: bool
  Snapshot :: DBSnapshot
  Instance :: DBInstance

definition RestoreDBInstanceFromDBSnapshot ::
  "utils \<Rightarrow> nat \<Rightarrow> Command \<Rightarrow> RestoreDBInstanceFromDBSnapshotArgs \<Rightarrow> call list
     \<Rightarrow> (error + DBInstance) \<times> call list" where
  "RestoreDBInstanceFromDBSnapshot u now c args tr =
     (let message = \<lparr>rm_DBInstanceClass = DBInstanceClass args,
                      rm_DBInstanceIdentifier = DBIdentifier args,
                      rm_MultiAZ = MultiAZ args,
                      rm_DBSnapshotIdentifier = DBSnapshotIdentifier (Snapshot args),
                      rm_DBSubnetGroupName = DBSubnetGroupName (Instance args),
                      rm_StorageType = StorageType (Instance args),
                      rm_Tags = getSpecifyTags u now\<rparr>;
          tr = tr @ [CallRestoreDBInstanceFromDBSnapshot message]
      in case client_RestoreDBInstanceFromDBSnapshot (RDSClient c) message of
           Inl err \<Rightarrow> (Inl (External err), tr @ [LogErrorf ''%s'' [err]])
         | Inr resp \<Rightarrow> (Inr resp, tr))"

definition CreateDBSnapshot ::
  "utils \<Rightarrow> nat \<Rightarrow> Command \<Rightarrow> string \<Rightarrow> call list \<Rightarrow> (error + DBSnapshot) \<times> call list" where
  "CreateDBSnapshot u now c dbIdentifier tr =
     (let message = \<lparr>cm_DBInstanceIdentifier = dbIdentifier,
                      cm_DBSnapshotIdentifier = GetFormatedDBDisplayName u dbIdentifier,
                      cm_Tags = getSpecifyTags u now\<rparr>;
          tr = tr @ [CallCreateDBSnapshot message]
      in case client_CreateDBSnapshot (RDSClient c) message of
           Inl err \<Rightarrow> (Inl (External err), tr @ [LogErrorf ''%s'' [err]])
         | Inr resp \<Rightarrow> (Inr resp, tr))"

definition DeleteDBInstance ::
  "Command \<Rightarrow> string \<Rightarrow> call list \<Rightarrow> (error + DBInstance) \<times> call list" where
  "DeleteDBInstance c dbIdentifier tr =
     (let message = \<lparr>dm_DBInstanceIdentifier = dbIdentifier, dm_SkipFinalSnapshot = True\<rparr>;
          tr = tr @ [CallDeleteDBInstance message]
      in case client_DeleteDBInstance (RDSClient c) message of
           Inl err \<Rightarrow> (Inl (External err), tr @ [LogErrorf ''%s'' [err]])
         | Inr resp \<Rightarrow> (Inr resp, tr))"

definition DeleteDBSnapshot ::
  "Command \<Rightarrow> string \<Rightarrow> call list \<Rightarrow> (error + DBSnapshot) \<times> call list" where
  "DeleteDBSnapshot c snapshotIdentifier tr =
     (let tr = tr @ [CallDeleteDBSnapshot snapshotIdentifier]
      in case client_DeleteDBSnapshot (RDSClient c) snapshotIdentifier of
           Inl err \<Rightarrow> (Inl (External err), tr @ [LogErrorf ''%s'' [err]])
         | Inr resp \<Rightarrow> (Inr resp, tr))"

text \<open>The two loops of \<^verbatim>\<open>DeleteDBResources\<close>; \<open>i\<close> is the index of the range.\<close>

fun delete_snapshots :: "Command \<Rightarrow> nat \<Rightarrow> DBSnapshot list \<Rightarrow> call list \<Rightarrow> error option \<times> call list" where
  "delete_snapshots c i [] tr = (None, tr)"
| "delete_snapshots c i (item # rest) tr =
     (case DeleteDBSnapshot c (DBSnapshotIdentifier item) tr of
        (Inl err, tr') \<Rightarrow> (Some err, tr')
      | (Inr resp, tr') \<Rightarrow>
          delete_snapshots c (i + 1) rest
            (tr' @ [LogInfof ''[% d] deleted DB Snapshot: %s''
                      [itoa (int (i + 1)), DBSnapshotIdentifier resp]]))"

fun delete_instances :: "Command \<Rightarrow> nat \<Rightarrow> DBInstance list \<Rightarrow> call list \<Rightarrow> error option \<times> call list" where
  "delete_instances c i [] tr = (None, tr)"
| "delete_instances c i (item # rest) tr =
     (case DeleteDBInstance c (DBInstanceIdentifier item) tr of
        (Inl err, tr') \<Rightarrow> (Some err, tr')
      | (Inr resp, tr') \<Rightarrow>
          delete_instances c (i + 1) rest
            (tr' @ [LogInfof ''[% d] deleted DB Instance: %s''
                      [itoa (int (i + 1)), DBInstanceIdentifier resp]]))"

definition DeleteDBResources :: "Command \<Rightarrow> rdstypes \<Rightarrow> call list \<Rightarrow> error option \<times> call list" where
  "DeleteDBResources c x tr =
     (case x of
        L_DBSnapshot rdstype \<Rightarrow> delete_snapshots c 0 rdstype tr
      | L_DBInstance rdstype \<Rightarrow> delete_instances c 0 rdstype tr
      | _ \<Rightarrow> (None, tr @ [LogErrorf ''%s'' [Error ErrRdsTypesNotFound]]))"

section \<open>Status waiter\<close>

text \<open>
  The goroutine of \<^verbatim>\<open>WaitForStatusAvailable\<close> runs
  \<^verbatim>\<open>for { select { ... } }\<close>: each round takes one of the two cases of the
  \<^verbatim>\<open>select\<close>, a tick of the ticker or the value of the timeout channel, and
  runs its body. A tick carries the remote service as it answers at that moment.
\<close>

datatype select_case = Tick RDSClient | Timeout

text \<open>
  The state of the goroutine: the values of the sends on \<^verbatim>\<open>receiver\<close> it has
  run, in order (the channel is unbuffered: the goroutine waits in a send until the caller
  receives the value), the number of describe calls it has made, whether
  \<^verbatim>\<open>ticker.Stop()\<close> was called, whether the timeout channel has given its one
  value, and whether the goroutine has panicked.
\<close>

record waiter =
  sent :: "bool list"
  describes :: nat
  ticker_stopped :: bool
  timed_out :: bool
  panicked :: bool

definition check_available :: "string \<Rightarrow> waiter \<Rightarrow> waiter" where
  "check_available rds_status w =
     (if rds_status = ''available''
      then w\<lparr>sent := sent w @ [True], ticker_stopped := True\<rparr>
      else w)"

text \<open>
  The body of the tick case. When the describe call fails the code sends
  \<open>false\<close>, stops the ticker and goes on to read the status through the pointer
  the describe function returned, which is nil: the goroutine panics there.
\<close>

definition on_tick :: "Command \<Rightarrow> rdstypes \<Rightarrow> waiter \<Rightarrow> waiter" where
  "on_tick c x w =
     (case x of
        P_DBSnapshot rdstype \<Rightarrow>
          (case DescribeDBSnapshot c (DBSnapshotIdentifier rdstype) of
             Inl err \<Rightarrow>
               w\<lparr>describes := describes w + 1, sent := sent w @ [False],
                  ticker_stopped := True, panicked := True\<rparr>
           | Inr db_snapshot \<Rightarrow>
               check_available (Status db_snapshot) (w\<lparr>describes := describes w + 1\<rparr>))
      | P_DBInstance rdstype \<Rightarrow>
          (case DescribeDBInstance c (DBInstanceIdentifier rdstype) of
             Inl err \<Rightarrow>
               w\<lparr>describes := describes w + 1, sent := sent w @ [False],
                  ticker_stopped := True, panicked := True\<rparr>
           | Inr db_instance \<Rightarrow>
               check_available (DBInstanceStatus db_instance) (w\<lparr>describes := describes w + 1\<rparr>))
      | _ \<Rightarrow> check_available [] w)"

definition on_timeout :: "waiter \<Rightarrow> waiter" where
  "on_timeout w = w\<lparr>sent := sent w @ [False], ticker_stopped := True, timed_out := True\<rparr>"

text \<open>
  The loop. A stopped ticker sends no more ticks and the timeout channel gives one
  value only, so such a case is never taken; a goroutine that panicked runs no more.
\<close>

fun wait_loop :: "Command \<Rightarrow> rdstypes \<Rightarrow> select_case list \<Rightarrow> waiter \<Rightarrow> waiter" where
  "wait_loop c x [] w = w"
| "wait_loop c x (ev # evs) w =
     (if panicked w then w
      else wait_loop c x evs
        (case ev of
           Tick cl \<Rightarrow> if ticker_stopped w then w else on_tick (c\<lparr>RDSClient := cl\<rparr>) x w
         | Timeout \<Rightarrow> if timed_out w then w else on_timeout w))"

definition WaitForStatusAvailable :: "Command \<Rightarrow> rdstypes \<Rightarrow> select_case list \<Rightarrow> waiter" where
  "WaitForStatusAvailable c x evs =
     wait_loop c x evs
       \<lparr>sent = [], describes = 0, ticker_stopped = False, timed_out = False, panicked = False\<rparr>"

section \<open>Query executor\<close>

record Endpoint =
  Address :: string
  Port :: int

record Query =
  Name :: string
  Sql :: string

text \<open>
  A result set of \<^verbatim>\<open>database/sql\<close>: what \<^verbatim>\<open>Columns()\<close> returns, and for
  each row that \<^verbatim>\<open>Next()\<close> reaches what \<^verbatim>\<open>Scan\<close> finds, an error or the
  raw values of the row (\<open>None\<close> the nil slice of an SQL NULL).
\<close>

record Rows =
  Columns :: "string + string list"
  scans :: "(string + string option list) list"

record ExecuteSQLArgs =
  Engine :: string
  Endpoint :: Endpoint
  Queries :: "Query list"

record writeCSVFileArgs =
  Rows :: Rows
  FileName :: string
  Path :: string
  Bom :: bool

text \<open>
  The local system: the answers of \<^verbatim>\<open>sql.Open\<close>, of the n-th
  \<^verbatim>\<open>db.Query\<close> on the connection, the n-th reading of \<^verbatim>\<open>time.Now()\<close> in
  nanoseconds, the errors of \<^verbatim>\<open>os.OpenFile\<close> and \<^verbatim>\<open>file.Truncate\<close> on a
  path, and \<^verbatim>\<open>path.Join\<close>.
\<close>

record sys =
  sql_Open :: "string \<Rightarrow> string \<Rightarrow> string option"
  db_Query :: "nat \<Rightarrow> string \<Rightarrow> string + Rows"
  time_Now :: "nat \<Rightarrow> int"
  os_OpenFile :: "string \<Rightarrow> string option"
  file_Truncate :: "string \<Rightarrow> string option"
  path_Join :: "string \<Rightarrow> string \<Rightarrow> string"

record io =
  calls :: "call list"
  n_query :: nat
  n_now :: nat

text \<open>\<^verbatim>\<open>Time.Sub\<close>: the difference, kept within the range of a \<^verbatim>\<open>Duration\<close>.\<close>

definition Sub :: "int \<Rightarrow> int \<Rightarrow> int" where
  "Sub t s = max (- (2 ^ 63)) (min (2 ^ 63 - 1) (t - s))"

definition getDbOpenValues :: "Command \<Rightarrow> ExecuteSQLArgs \<Rightarrow> string \<times> string" where
  "getDbOpenValues c args =
     (let engine = ToLower (Engine args) in
      if Contains engine ''mysql'' then
        (''mysql'',
         User (RDSConfig c) @ '':'' @ Pass (RDSConfig c) @ ''@tcp('' @ Address (Endpoint args)
           @ '':'' @ itoa (Port (Endpoint args)) @ '')/'')
      else if Contains engine ''oracle'' then (''oracle'', [])
      else if Contains engine ''sqlserver'' then (''sqlserver'', [])
      else if Contains engine ''postgres'' then (''postgres'', [])
      else ([], []))"

text \<open>
  \<^verbatim>\<open>Scan(dest...)\<close> into the \<open>rawResult\<close> buffer: it fails when the row
  fails or when the number of destinations is not the number of values.
\<close>

definition Scan :: "string + string option list \<Rightarrow> string option list
    \<Rightarrow> string option \<times> string option list" where
  "Scan row rawResult =
     (case row of
        Inl err \<Rightarrow> (Some err, rawResult)
      | Inr vals \<Rightarrow>
          if length vals \<noteq> length rawResult
          then (Some ''sql: wrong number of destination arguments in Scan'', rawResult)
          else (None, vals))"

definition render :: "string option \<Rightarrow> string" where
  "render raw = (case raw of None \<Rightarrow> ''null'' | Some bytes \<Rightarrow> bytes)"

fun rows_loop :: "(string + string option list) list \<Rightarrow> string option list \<Rightarrow> call list
    \<Rightarrow> call list" where
  "rows_loop [] rawResult tr = tr"
| "rows_loop (row # rest) rawResult tr =
     (case Scan row rawResult of
        (Some err, rawResult') \<Rightarrow>
          rows_loop rest rawResult'
            (tr @ [LogErrorf ''%s'' [err], CsvWrite (map render rawResult')])
      | (None, rawResult') \<Rightarrow>
          rows_loop rest rawResult' (tr @ [CsvWrite (map render rawResult')]))"

definition BOM :: string where
  "BOM = [CHR 0xEF, CHR 0xBB, CHR 0xBF]"

text \<open>
  \<^verbatim>\<open>writeCSVFile\<close>. The errors of \<^verbatim>\<open>os.OpenFile\<close> and of
  \<^verbatim>\<open>file.Truncate\<close> are assigned to \<open>err\<close> and never read; the results of the
  writer's \<^verbatim>\<open>Write\<close> are dropped. The methods of a nil \<^verbatim>\<open>*os.File\<close> return
  an error, they do not panic.
\<close>

definition writeCSVFile :: "sys \<Rightarrow> writeCSVFileArgs \<Rightarrow> io \<Rightarrow> bool \<times> io" where
  "writeCSVFile s args w =
     (case Columns (Rows args) of
        Inl err \<Rightarrow> (False, w\<lparr>calls := calls w @ [LogErrorf ''%s'' [err]]\<rparr>)
      | Inr cols \<Rightarrow>
          let file_name = (if Bom args then ''utf8-bom_'' @ FileName args else FileName args);
              out_path = path_Join s (Path args) file_name;
              err = os_OpenFile s out_path;
              tr = calls w @ [OsOpenFile out_path];
              err = file_Truncate s out_path;
              tr = tr @ [FileTruncate];
              tr = (if Bom args
                    then tr @ [CsvWrite [BOM @ ''# character encoding : utf-8 with BOM'']]
                    else tr);
              tr = tr @ [CsvWrite cols];
              tr = rows_loop (scans (Rows args)) (replicate (length cols) None) tr;
              tr = tr @ [CsvFlush, FileClose]
          in (True, w\<lparr>calls := tr\<rparr>))"

text \<open>
  The block of the loop body of \<^verbatim>\<open>ExecuteSQL\<close> that writes the CSV file of one
  result; \<open>out_state\<close> is logged at debug level only.
\<close>

definition export_result :: "sys \<Rightarrow> utils \<Rightarrow> Command \<Rightarrow> Query \<Rightarrow> Rows \<Rightarrow> io \<Rightarrow> io" where
  "export_result s u c query result w =
     (let cols = (case Columns result of Inl err \<Rightarrow> [] | Inr cols \<Rightarrow> cols) in
      if cfg_File (OutConfig c) \<and> length cols > 0
      then
        let file_name = Name query @ ''-'' @ GetFormatedTime u (n_now w) @ ''.csv'';
            out_path = GetHomeDir u;
            out_path = (if cfg_Root (OutConfig c) \<noteq> [] then cfg_Root (OutConfig c) else out_path);
            (out_state, w) = writeCSVFile s
                               \<lparr>Rows = result, FileName = file_name, Path = out_path,
                                 Bom = cfg_Bom (OutConfig c)\<rparr> w
        in w
      else w)"

text \<open>The loop over the queries of \<^verbatim>\<open>ExecuteSQL\<close>.\<close>

fun query_loop :: "sys \<Rightarrow> utils \<Rightarrow> Command \<Rightarrow> Query list \<Rightarrow> int list \<Rightarrow> io
    \<Rightarrow> (int list \<times> error option) \<times> io" where
  "query_loop s u c [] durations w = ((durations, None), w)"
| "query_loop s u c (query # rest) durations w =
     (let s_time = time_Now s (n_now w);
          w = w\<lparr>n_now := n_now w + 1\<rparr>;
          result = db_Query s (n_query w) (Sql query);
          w = w\<lparr>calls := calls w @ [DbQuery (Sql query)], n_query := n_query w + 1\<rparr>
      in case result of
           Inl err \<Rightarrow>
             ((durations, Some (External err)), w\<lparr>calls := calls w @ [LogErrorf ''%s'' [err]]\<rparr>)
         | Inr result \<Rightarrow>
             let e_time = time_Now s (n_now w);
                 w = w\<lparr>n_now := n_now w + 1\<rparr>;
                 durations = durations @ [Sub e_time s_time];
                 w = export_result s u c query result w;
                 w = w\<lparr>calls := calls w @ [RowsClose]\<rparr>
             in query_loop s u c rest durations w)"

definition ExecuteSQL :: "sys \<Rightarrow> utils \<Rightarrow> Command \<Rightarrow> ExecuteSQLArgs \<Rightarrow> io
    \<Rightarrow> (int list \<times> error option) \<times> io" where
  "ExecuteSQL s u c args w =
     (case getDbOpenValues c args of
        (driver, dsn) \<Rightarrow>
          if driver = [] then
            (([], Some ErrDriverNotFound),
             w\<lparr>calls := calls w @ [LogErrorf ''%s'' [Error ErrDriverNotFound]]\<rparr>)
          else
            let w = w\<lparr>calls := calls w @ [SqlOpen driver dsn]\<rparr> in
            case sql_Open s driver dsn of
              Some err \<Rightarrow> (([], Some (External err)), w\<lparr>calls := calls w @ [LogErrorf ''%s'' [err]]\<rparr>)
            | None \<Rightarrow>
                (case query_loop s u c (Queries args) [] w of
                   (res, w) \<Rightarrow> (res, w\<lparr>calls := calls w @ [DbClose]\<rparr>)))"

section \<open>Observations and the words of the specification\<close>

text \<open>The two kinds of tag the ownership check counts, and their presence in a list.\<close>

definition name_match :: "utils \<Rightarrow> Tag \<Rightarrow> bool" where
  "name_match u tag = (Key tag = rt_name_text \<and> HasPrefix (Value tag) (GetFormatedAppName u))"

definition time_match :: "Tag \<Rightarrow> bool" where
  "time_match tag = (Key tag = rt_time_text)"

definition has_name_tag :: "utils \<Rightarrow> Tag list \<Rightarrow> bool" where
  "has_name_tag u tags = list_ex (name_match u) tags"

definition has_time_tag :: "Tag list \<Rightarrow> bool" where
  "has_time_tag tags = list_ex time_match tags"

text \<open>The pair of tags of a resource the tool creates at moment \<open>now\<close>.\<close>

definition ownership_pair :: "utils \<Rightarrow> nat \<Rightarrow> Tag list \<Rightarrow> bool" where
  "ownership_pair u now tags =
     (case tags of
        [n, t] \<Rightarrow> Key n = ''rt_name'' \<and> HasPrefix (Value n) (GetFormatedAppName u)
                  \<and> Key t = ''rt_time'' \<and> Value t = GetFormatedTime u now
      | _ \<Rightarrow> False)"

text \<open>The tags of the creation calls of a trace, its deletion calls, the SQL texts of its
  queries, the connections it opens and the records it hands to the CSV writer.\<close>

fun creation_tags :: "call list \<Rightarrow> Tag list list" where
  "creation_tags [] = []"
| "creation_tags (CallRestoreDBInstanceFromDBSnapshot message # tr) = rm_Tags message # creation_tags tr"
| "creation_tags (CallCreateDBSnapshot message # tr) = cm_Tags message # creation_tags tr"
| "creation_tags (other # tr) = creation_tags tr"

fun deletions :: "call list \<Rightarrow> call list" where
  "deletions [] = []"
| "deletions (CallDeleteDBInstance message # tr) = CallDeleteDBInstance message # deletions tr"
| "deletions (CallDeleteDBSnapshot ident # tr) = CallDeleteDBSnapshot ident # deletions tr"
| "deletions (other # tr) = deletions tr"

fun queries_run :: "call list \<Rightarrow> string list" where
  "queries_run [] = []"
| "queries_run (DbQuery text # tr) = text # queries_run tr"
| "queries_run (other # tr) = queries_run tr"

fun connections :: "call list \<Rightarrow> call list" where
  "connections [] = []"
| "connections (SqlOpen driver dsn # tr) = SqlOpen driver dsn # connections tr"
| "connections (other # tr) = connections tr"

fun csv_records :: "call list \<Rightarrow> string list list" where
  "csv_records [] = []"
| "csv_records (CsvWrite record # tr) = record # csv_records tr"
| "csv_records (other # tr) = csv_records tr"

definition is_resource_list :: "rdstypes \<Rightarrow> bool" where
  "is_resource_list x = (case x of L_DBSnapshot l \<Rightarrow> True | L_DBInstance l \<Rightarrow> True | _ \<Rightarrow> False)"

text \<open>
  The position in the batch of the first query the connection answers with an error,
  when \<open>n\<close> queries have been made on it before.
\<close>

fun first_failure :: "sys \<Rightarrow> nat \<Rightarrow> Query list \<Rightarrow> nat option" where
  "first_failure s n [] = None"
| "first_failure s n (query # rest) =
     (case db_Query s n (Sql query) of
        Inl err \<Rightarrow> Some 0
      | Inr result \<Rightarrow> map_option Suc (first_failure s (n + 1) rest))"

text \<open>The time the k-th query of a batch took, when its first clock reading is number \<open>n\<close>.\<close>

definition elapsed :: "sys \<Rightarrow> nat \<Rightarrow> nat \<Rightarrow> int" where
  "elapsed s n k = Sub (time_Now s (n + 2 * k + 1)) (time_Now s (n + 2 * k))"

text \<open>The world after one round of the loop of \<^verbatim>\<open>ExecuteSQL\<close> whose query succeeded.\<close>

definition after_query :: "sys \<Rightarrow> utils \<Rightarrow> Command \<Rightarrow> Query \<Rightarrow> Rows \<Rightarrow> io \<Rightarrow> io" where
  "after_query s u c q r w =
     (let w1 = export_result s u c q r
                 (w\<lparr>calls := calls w @ [DbQuery (Sql q)], n_query := n_query w + 1,
                    n_now := n_now w + 2\<rparr>)
      in w1\<lparr>calls := calls w1 @ [RowsClose]\<rparr>)"

section \<open>Concrete inputs\<close>

definition ex_utils :: utils where
  "ex_utils =
     \<lparr>GetFormatedAppName = ''rds-try'',
      GetFormatedTime = (\<lambda>n. ''20150401-120000''),
      GetHomeDir = ''/home/op'',
      GetFormatedDBDisplayName = (\<lambda>ident. ''rds-try-'' @ ident)\<rparr>"

definition ex_instance :: "string \<Rightarrow> string \<Rightarrow> DBInstance" where
  "ex_instance ident status =
     \<lparr>DBInstanceIdentifier = ident, DBInstanceStatus = status,
      DBSubnetGroupName = ''default'', StorageType = ''gp2''\<rparr>"

definition ex_snapshot :: "string \<Rightarrow> string \<Rightarrow> DBSnapshot" where
  "ex_snapshot ident status = \<lparr>DBSnapshotIdentifier = ident, Status = status\<rparr>"

definition ex_owned_tags :: "Tag list" where
  "ex_owned_tags =
     [\<lparr>Key = ''rt_name'', Value = ''rds-try''\<rparr>, \<lparr>Key = ''rt_time'', Value = ''20150401-120000''\<rparr>]"

definition ex_time_twice :: "Tag list" where
  "ex_time_twice =
     [\<lparr>Key = ''rt_time'', Value = ''20150401-120000''\<rparr>, \<lparr>Key = ''rt_time'', Value = ''20150402-120000''\<rparr>]"

definition ex_name_only :: "Tag list" where
  "ex_name_only = [\<lparr>Key = ''rt_name'', Value = ''rds-try''\<rparr>, \<lparr>Key = ''Owner'', Value = ''ops''\<rparr>]"

text \<open>The tag lists of the remote service: resources \<open>a\<close> and \<open>c\<close> carry the pair of the
  tool, \<open>twice\<close> carries two time tags, \<open>n\<close> a name tag and no time tag, the call
  fails for \<open>x\<close>, all others have no tag.\<close>

definition ex_tags :: "string \<Rightarrow> string + Tag list" where
  "ex_tags arn =
     (if arn = ''arn:db:a'' \<or> arn = ''arn:db:c'' \<or> arn = ''arn:snapshot:a'' \<or> arn = ''arn:snapshot:c''
      then Inr ex_owned_tags
      else if arn = ''arn:db:twice'' then Inr ex_time_twice
      else if arn = ''arn:db:n'' then Inr ex_name_only
      else if arn = ''arn:db:x'' \<or> arn = ''arn:snapshot:x'' then Inl ''Throttling''
      else Inr [])"

definition ex_client :: "DBInstance list \<Rightarrow> DBSnapshot list \<Rightarrow> RDSClient" where
  "ex_client instances snapshots =
     \<lparr>client_DescribeDBInstances = (\<lambda>message. Inr instances),
      client_DescribeDBSnapshots = (\<lambda>message. Inr snapshots),
      client_ListTagsForResource = ex_tags,
      client_RestoreDBInstanceFromDBSnapshot = (\<lambda>message. Inl ''AccessDenied''),
      client_CreateDBSnapshot = (\<lambda>message. Inl ''AccessDenied''),
      client_DeleteDBInstance = (\<lambda>message. Inl ''AccessDenied''),
      client_DeleteDBSnapshot = (\<lambda>ident. Inl ''AccessDenied'')\<rparr>"

definition ex_failing :: RDSClient where
  "ex_failing =
     \<lparr>client_DescribeDBInstances = (\<lambda>message. Inl ''RequestError''),
      client_DescribeDBSnapshots = (\<lambda>message. Inl ''RequestError''),
      client_ListTagsForResource = (\<lambda>arn. Inl ''RequestError''),
      client_RestoreDBInstanceFromDBSnapshot = (\<lambda>message. Inl ''RequestError''),
      client_CreateDBSnapshot = (\<lambda>message. Inl ''RequestError''),
      client_DeleteDBInstance = (\<lambda>message. Inl ''RequestError''),
      client_DeleteDBSnapshot = (\<lambda>ident. Inl ''RequestError'')\<rparr>"

definition ex_cmd :: "RDSClient \<Rightarrow> Command" where
  "ex_cmd cl =
     \<lparr>OutConfig = \<lparr>cfg_File = True, cfg_Root = [], cfg_Bom = False\<rparr>,
      RDSConfig = \<lparr>User = ''user'', Pass = ''pass''\<rparr>,
      RDSClient = cl,
      ARNPrefix = ''arn:''\<rparr>"

definition ex_rows :: Rows where
  "ex_rows =
     \<lparr>Columns = Inr [''id'', ''name''],
      scans = [Inr [Some ''1'', Some ''a''], Inr [Some ''2'', None]]\<rparr>"

definition ex_sys :: sys where
  "ex_sys =
     \<lparr>sql_Open = (\<lambda>driver dsn. None),
      db_Query = (\<lambda>n text. if text = ''bad'' then Inl ''Error 1064'' else Inr ex_rows),
      time_Now = (\<lambda>n. 1000 * int n),
      os_OpenFile = (\<lambda>p. None),
      file_Truncate = (\<lambda>p. None),
      path_Join = (\<lambda>dir file. dir @ ''/'' @ file)\<rparr>"

definition ex_sys_unwritable :: sys where
  "ex_sys_unwritable =
     ex_sys\<lparr>os_OpenFile := (\<lambda>p. Some ''open: permission denied''),
            file_Truncate := (\<lambda>p. Some ''invalid argument'')\<rparr>"

definition ex_args :: "string \<Rightarrow> Query list \<Rightarrow> ExecuteSQLArgs" where
  "ex_args engine queries =
     \<lparr>Engine = engine, Endpoint = \<lparr>Address = ''host'', Port = 3306\<rparr>, Queries = queries\<rparr>"

definition ex_csv_args :: writeCSVFileArgs where
  "ex_csv_args = \<lparr>Rows = ex_rows, FileName = ''q1-20150401-120000.csv'', Path = ''/out'', Bom = False\<rparr>"

definition ex_io :: io where
  "ex_io = \<lparr>calls = [], n_query = 0, n_now = 0\<rparr>"

definition ex_batch :: "Query list" where
  "ex_batch =
     [\<lparr>Name = ''q1'', Sql = ''select 1''\<rparr>, \<lparr>Name = ''q2'', Sql = ''bad''\<rparr>,
      \<lparr>Name = ''q3'', Sql = ''select 3''\<rparr>]"

definition ex_snapshots :: "DBSnapshot list" where
  "ex_snapshots =
     [ex_snapshot ''s1'' ''available'', ex_snapshot ''s2'' ''creating'',
      ex_snapshot ''s3'' ''available'', ex_snapshot ''s4'' ''deleting'']"

definition ex_instances :: "DBInstance list" where
  "ex_instances =
     [ex_instance ''a'' ''available'', ex_instance ''b'' ''available'', ex_instance ''c'' ''creating'']"

definition ex_tagged_snapshots :: "DBSnapshot list" where
  "ex_tagged_snapshots =
     [ex_snapshot ''a'' ''available'', ex_snapshot ''x'' ''available'', ex_snapshot ''c'' ''available'']"

definition ex_tagged_cmd :: Command where
  "ex_tagged_cmd = ex_cmd (ex_client ex_instances ex_tagged_snapshots)"

definition ex_batch_ok :: "Query list" where
  "ex_batch_ok = [\<lparr>Name = ''q1'', Sql = ''select 1''\<rparr>, \<lparr>Name = ''q3'', Sql = ''select 3''\<rparr>]"

section \<open>Properties\<close>

subsection \<open>Strings\<close>

lemma HasPrefix_refl: "HasPrefix s s"
  by (simp add: HasPrefix_def)

lemma HasPrefix_iff: "HasPrefix s sub \<longleftrightarrow> (\<exists>post. s = sub @ post)"
proof
  assume "HasPrefix s sub"
  then have "s = sub @ drop (length sub) s"
    by (metis HasPrefix_def append_take_drop_id)
  then show "\<exists>post. s = sub @ post" ..
next
  assume "\<exists>post. s = sub @ post"
  then show "HasPrefix s sub" by (auto simp: HasPrefix_def)
qed

lemma Contains_iff: "Contains s sub \<longleftrightarrow> (\<exists>pre post. s = pre @ sub @ post)"
proof (induction s)
  case Nil
  then show ?case by auto
next
  case (Cons ch s)
  show ?case
  proof
    assume "Contains (ch # s) sub"
    then consider "HasPrefix (ch # s) sub" | "Contains s sub" by auto
    then show "\<exists>pre post. ch # s = pre @ sub @ post"
    proof cases
      case 1
      then obtain post where "ch # s = [] @ sub @ post" by (auto simp: HasPrefix_iff)
      then show ?thesis by blast
    next
      case 2
      with Cons.IH obtain pre post where "s = pre @ sub @ post" by blast
      then have "ch # s = (ch # pre) @ sub @ post" by simp
      then show ?thesis by blast
    qed
  next
    assume "\<exists>pre post. ch # s = pre @ sub @ post"
    then obtain pre post where e: "ch # s = pre @ sub @ post" by blast
    show "Contains (ch # s) sub"
    proof (cases pre)
      case Nil
      with e have "HasPrefix (ch # s) sub" by (auto simp: HasPrefix_iff)
      then show ?thesis by simp
    next
      case (Cons p pre')
      with e have "s = pre' @ sub @ post" by simp
      with Cons.IH show ?thesis by auto
    qed
  qed
qed

subsection \<open>Traces\<close>

lemma creation_tags_append: "creation_tags (tr @ tr') = creation_tags tr @ creation_tags tr'"
  by (induction tr rule: creation_tags.induct) simp_all

lemma deletions_append: "deletions (tr @ tr') = deletions tr @ deletions tr'"
  by (induction tr rule: deletions.induct) simp_all

lemma queries_run_append: "queries_run (tr @ tr') = queries_run tr @ queries_run tr'"
  by (induction tr rule: queries_run.induct) simp_all

lemma csv_records_append: "csv_records (tr @ tr') = csv_records tr @ csv_records tr'"
  by (induction tr rule: csv_records.induct) simp_all

lemma connections_append: "connections (tr @ tr') = connections tr @ connections tr'"
  by (induction tr rule: connections.induct) simp_all

subsection \<open>Status waiter\<close>

text \<open>Once the ticker is stopped the goroutine makes no describe call any more.\<close>

lemma wait_loop_stopped:
  "ticker_stopped w \<Longrightarrow> describes (wait_loop c x evs w) = describes w"
proof (induction evs arbitrary: w)
  case Nil
  then show ?case by simp
next
  case (Cons ev evs)
  then show ?case by (cases ev) (simp_all add: on_timeout_def)
qed

text \<open>Every send stops the ticker.\<close>

lemma on_tick_sent:
  "sent (on_tick c x w) \<noteq> sent w \<Longrightarrow> ticker_stopped (on_tick c x w)"
  by (cases x) (auto simp: on_tick_def check_available_def split: sum.splits if_splits)

text \<open>
  An instance that is \<open>available\<close> at the first tick: the goroutine sends \<open>true\<close>,
  and \<open>false\<close> at the timeout. A describe call that fails at the first tick: it sends
  \<open>false\<close> and panics.
\<close>

lemma wait_available_then_timeout:
  assumes "DescribeDBInstance (c\<lparr>RDSClient := cl\<rparr>) (DBInstanceIdentifier r) = Inr i"
    and "DBInstanceStatus i = ''available''"
  shows "sent (WaitForStatusAvailable c (P_DBInstance r) [Tick cl, Timeout]) = [True, False]"
  using assms
  by (simp add: WaitForStatusAvailable_def on_tick_def on_timeout_def check_available_def)

lemma wait_describe_error:
  assumes "DescribeDBInstance (c\<lparr>RDSClient := cl\<rparr>) (DBInstanceIdentifier r) = Inl err"
  shows "sent (WaitForStatusAvailable c (P_DBInstance r) (Tick cl # evs)) = [False]
         \<and> panicked (WaitForStatusAvailable c (P_DBInstance r) (Tick cl # evs))"
proof -
  have "wait_loop c x evs w = w" if "panicked w" for x w
    using that by (cases evs) simp_all
  then show ?thesis
    using assms by (simp add: WaitForStatusAvailable_def on_tick_def)
qed

text \<open>
  C1: for every waited resource the waiter delivers exactly one boolean, \<open>true\<close> the
  first time the status is \<open>available\<close>, \<open>false\<close> when a describe call fails or the
  timeout comes first, and stops after either outcome. The loop of the goroutine has no
  exit. For an instance that is \<open>available\<close> at the first tick it sends \<open>true\<close>, and
  when the timeout comes it runs the send of \<open>false\<close> as well: two values. When the
  describe call of the first tick fails it sends \<open>false\<close> and then panics on the nil
  pointer of the failed call.
\<close>

theorem WaitForStatusAvailable_second_send:
  "sent (WaitForStatusAvailable (ex_cmd ex_failing) (P_DBInstance (ex_instance ''a'' ''creating''))
           [Tick (ex_client [ex_instance ''a'' ''available''] []), Timeout]) = [True, False]
   \<and> sent (WaitForStatusAvailable (ex_cmd ex_failing) (P_DBInstance (ex_instance ''a'' ''creating''))
           [Tick ex_failing]) = [False]
   \<and> panicked (WaitForStatusAvailable (ex_cmd ex_failing) (P_DBInstance (ex_instance ''a'' ''creating''))
           [Tick ex_failing])"
  by (simp add: WaitForStatusAvailable_def on_tick_def on_timeout_def check_available_def
        DescribeDBInstance_def describeDBInstances_def ex_cmd_def ex_client_def ex_failing_def
        ex_instance_def)

subsection \<open>Tag registry\<close>

lemma count_tags_filter:
  "count_tags u tags n = n + length (filter (name_match u) tags) + length (filter time_match tags)"
  by (induction tags arbitrary: n)
     (auto simp: name_match_def time_match_def rt_name_text_def rt_time_text_def)

lemma distinct_key_filter:
  "distinct (map Key tags) \<Longrightarrow> length (filter (\<lambda>t. Key t = k \<and> P t) tags) \<le> 1"
proof (induction tags)
  case Nil
  then show ?case by simp
next
  case (Cons t ts)
  show ?case
  proof (cases "Key t = k")
    case True
    from Cons.prems have "Key t \<notin> Key ` set ts" by simp
    with True have "\<forall>t' \<in> set ts. Key t' \<noteq> k" by (metis imageI)
    then have "filter (\<lambda>t. Key t = k \<and> P t) ts = []" by (auto simp: filter_empty_conv)
    then show ?thesis by simp
  next
    case False
    with Cons show ?thesis by simp
  qed
qed

lemma distinct_keys_count:
  assumes "distinct (map Key tags)"
  shows "2 \<le> count_tags u tags 0 \<longleftrightarrow> has_name_tag u tags \<and> has_time_tag tags"
proof -
  let ?n = "length (filter (name_match u) tags)"
  let ?t = "length (filter time_match tags)"
  have n: "?n \<le> 1"
    using distinct_key_filter [OF assms, of rt_name_text "\<lambda>t. HasPrefix (Value t) (GetFormatedAppName u)"]
    by (simp add: name_match_def [abs_def])
  have t: "?t \<le> 1"
    using distinct_key_filter [OF assms, of rt_time_text "\<lambda>t. True"]
    by (simp add: time_match_def [abs_def])
  have hn: "has_name_tag u tags \<longleftrightarrow> 0 < ?n"
    unfolding length_greater_0_conv by (auto simp: has_name_tag_def list_ex_iff filter_empty_conv)
  have ht: "has_time_tag tags \<longleftrightarrow> 0 < ?t"
    unfolding length_greater_0_conv by (auto simp: has_time_tag_def list_ex_iff filter_empty_conv)
  have "2 \<le> ?n + ?t \<longleftrightarrow> 0 < ?n \<and> 0 < ?t" using n t by arith
  then show ?thesis using hn ht by (simp only: count_tags_filter add_0)
qed

text \<open>
  C2, as amended: when the list-tags call answers, the ownership check returns true if
  and only if the count of matches is at least 2, where every tag with key \<open>rt_name\<close>
  and a value prefixed with the application name counts once and every tag with key
  \<open>rt_time\<close> counts once; when the keys of the list are pairwise distinct this is the
  case if and only if both the name tag and the time tag are present, so one of the two
  alone gives false.
\<close>

theorem ownership_check_count:
  assumes "client_ListTagsForResource (RDSClient c) (getARNString c x) = Inr tags"
  shows "checkListTagsForResourceMessage u c x = (2 \<le> count_tags u tags 0, None)
         \<and> count_tags u tags 0 = length (filter (name_match u) tags) + length (filter time_match tags)
         \<and> (distinct (map Key tags) \<longrightarrow>
              (fst (checkListTagsForResourceMessage u c x)
                 \<longleftrightarrow> has_name_tag u tags \<and> has_time_tag tags))"
proof -
  have eq: "checkListTagsForResourceMessage u c x = (2 \<le> count_tags u tags 0, None)"
    using assms by (cases tags) (simp_all add: checkListTagsForResourceMessage_def)
  show ?thesis using eq distinct_keys_count [of tags u] by (simp add: count_tags_filter)
qed

theorem ownership_check_count_witness:
  "client_ListTagsForResource (RDSClient (ex_cmd (ex_client [] [])))
       (getARNString (ex_cmd (ex_client [] [])) (V_DBInstance (ex_instance ''a'' ''available'')))
     = Inr ex_owned_tags
   \<and> distinct (map Key ex_owned_tags)
   \<and> has_name_tag ex_utils ex_owned_tags \<and> has_time_tag ex_owned_tags
   \<and> fst (checkListTagsForResourceMessage ex_utils (ex_cmd (ex_client [] []))
            (V_DBInstance (ex_instance ''a'' ''available'')))
   \<and> client_ListTagsForResource (RDSClient (ex_cmd (ex_client [] [])))
       (getARNString (ex_cmd (ex_client [] [])) (V_DBInstance (ex_instance ''n'' ''available'')))
     = Inr ex_name_only
   \<and> distinct (map Key ex_name_only)
   \<and> has_name_tag ex_utils ex_name_only \<and> \<not> has_time_tag ex_name_only
   \<and> \<not> fst (checkListTagsForResourceMessage ex_utils (ex_cmd (ex_client [] []))
              (V_DBInstance (ex_instance ''n'' ''available'')))"
proof -
  have h: "client_ListTagsForResource (RDSClient (ex_cmd (ex_client [] [])))
       (getARNString (ex_cmd (ex_client [] [])) (V_DBInstance (ex_instance ''a'' ''available'')))
     = Inr ex_owned_tags"
    by (simp add: ex_cmd_def ex_client_def getARNString_def ex_instance_def ex_tags_def)
  have d: "distinct (map Key ex_owned_tags)"
    by (simp add: ex_owned_tags_def)
  have n: "has_name_tag ex_utils ex_owned_tags"
    by (simp add: has_name_tag_def name_match_def ex_owned_tags_def ex_utils_def rt_name_text_def
          HasPrefix_def)
  have t: "has_time_tag ex_owned_tags"
    by (simp add: has_time_tag_def time_match_def ex_owned_tags_def rt_time_text_def)
  have h': "client_ListTagsForResource (RDSClient (ex_cmd (ex_client [] [])))
       (getARNString (ex_cmd (ex_client [] [])) (V_DBInstance (ex_instance ''n'' ''available'')))
     = Inr ex_name_only"
    by (simp add: ex_cmd_def ex_client_def getARNString_def ex_instance_def ex_tags_def)
  have d': "distinct (map Key ex_name_only)"
    by (simp add: ex_name_only_def)
  have n': "has_name_tag ex_utils ex_name_only"
    by (simp add: has_name_tag_def name_match_def ex_name_only_def ex_utils_def rt_name_text_def
          HasPrefix_def)
  have t': "\<not> has_time_tag ex_name_only"
    by (simp add: has_time_tag_def time_match_def ex_name_only_def rt_time_text_def)
  from ownership_check_count [OF h, of ex_utils] ownership_check_count [OF h', of ex_utils]
    h d n t h' d' n' t'
  show ?thesis by blast
qed

text \<open>
  C2 as stated fails on a list with two time tags and no name tag: only one of the two
  is present, the count is 2 and the check returns true.
\<close>

theorem ownership_check_two_time_tags:
  "has_time_tag ex_time_twice \<and> \<not> has_name_tag ex_utils ex_time_twice
   \<and> checkListTagsForResourceMessage ex_utils (ex_cmd (ex_client [] []))
       (V_DBInstance (ex_instance ''twice'' ''available'')) = (True, None)"
  by (simp add: has_time_tag_def has_name_tag_def time_match_def name_match_def ex_time_twice_def
        rt_time_text_def rt_name_text_def checkListTagsForResourceMessage_def ex_cmd_def
        ex_client_def getARNString_def ex_instance_def ex_tags_def)

lemma by_tags_loop_find:
  "by_tags_loop u c wrap xs acc =
     (case find (\<lambda>x. snd (checkListTagsForResourceMessage u c (wrap x)) \<noteq> None) xs of
        None \<Rightarrow> (acc @ filter (\<lambda>x. fst (checkListTagsForResourceMessage u c (wrap x))) xs, None)
      | Some x \<Rightarrow> ([], snd (checkListTagsForResourceMessage u c (wrap x))))"
proof (induction xs arbitrary: acc)
  case Nil
  then show ?case by simp
next
  case (Cons x xs)
  obtain st er where chk: "checkListTagsForResourceMessage u c (wrap x) = (st, er)"
    by (cases "checkListTagsForResourceMessage u c (wrap x)")
  show ?case
  proof (cases er)
    case None
    with chk Cons.IH show ?thesis by (auto split: option.splits)
  next
    case (Some e)
    with chk show ?thesis by simp
  qed
qed

text \<open>
  C3: when the describe call answers with a list, the discovery by tags returns the
  elements the ownership check accepts, all of them and in the order of the list, with
  a nil error; when the check fails on an element it returns the error of the first
  such element and an empty list. This holds for instances and for snapshots.
\<close>

theorem describe_by_tags_owned:
  "(describeDBInstances c \<lparr>di_DBInstanceIdentifier = None\<rparr> = Inr instances \<longrightarrow>
      DescribeDBInstancesByTags u c =
        (case find (\<lambda>x. snd (checkListTagsForResourceMessage u c (V_DBInstance x)) \<noteq> None) instances of
           None \<Rightarrow>
             (filter (\<lambda>x. fst (checkListTagsForResourceMessage u c (V_DBInstance x))) instances, None)
         | Some x \<Rightarrow> ([], snd (checkListTagsForResourceMessage u c (V_DBInstance x)))))
   \<and> (describeDBSnapshots c \<lparr>ds_DBInstanceIdentifier = None, ds_DBSnapshotIdentifier = None\<rparr>
        = Inr snapshots \<longrightarrow>
      DescribeDBSnapshotsByTags u c =
        (case find (\<lambda>x. snd (checkListTagsForResourceMessage u c (V_DBSnapshot x)) \<noteq> None) snapshots of
           None \<Rightarrow>
             (filter (\<lambda>x. fst (checkListTagsForResourceMessage u c (V_DBSnapshot x))) snapshots, None)
         | Some x \<Rightarrow> ([], snd (checkListTagsForResourceMessage u c (V_DBSnapshot x)))))"
  by (simp add: DescribeDBInstancesByTags_def DescribeDBSnapshotsByTags_def by_tags_loop_find
        split: option.splits)

theorem describe_by_tags_owned_witness:
  "describeDBInstances ex_tagged_cmd \<lparr>di_DBInstanceIdentifier = None\<rparr> = Inr ex_instances
   \<and> DescribeDBInstancesByTags ex_utils ex_tagged_cmd
       = ([ex_instance ''a'' ''available'', ex_instance ''c'' ''creating''], None)
   \<and> describeDBSnapshots ex_tagged_cmd
       \<lparr>ds_DBInstanceIdentifier = None, ds_DBSnapshotIdentifier = None\<rparr> = Inr ex_tagged_snapshots
   \<and> DescribeDBSnapshotsByTags ex_utils ex_tagged_cmd = ([], Some (External ''Throttling''))"
proof -
  have h: "describeDBInstances ex_tagged_cmd \<lparr>di_DBInstanceIdentifier = None\<rparr> = Inr ex_instances"
    by (simp add: describeDBInstances_def ex_tagged_cmd_def ex_cmd_def ex_client_def)
  have k: "describeDBSnapshots ex_tagged_cmd
             \<lparr>ds_DBInstanceIdentifier = None, ds_DBSnapshotIdentifier = None\<rparr>
             = Inr ex_tagged_snapshots"
    by (simp add: describeDBSnapshots_def ex_tagged_cmd_def ex_cmd_def ex_client_def)
  have chk:
    "checkListTagsForResourceMessage ex_utils ex_tagged_cmd
       (V_DBInstance (ex_instance ''a'' ''available'')) = (True, None)"
    "checkListTagsForResourceMessage ex_utils ex_tagged_cmd
       (V_DBInstance (ex_instance ''b'' ''available'')) = (False, None)"
    "checkListTagsForResourceMessage ex_utils ex_tagged_cmd
       (V_DBInstance (ex_instance ''c'' ''creating'')) = (True, None)"
    "checkListTagsForResourceMessage ex_utils ex_tagged_cmd
       (V_DBSnapshot (ex_snapshot ''a'' ''available'')) = (True, None)"
    "checkListTagsForResourceMessage ex_utils ex_tagged_cmd
       (V_DBSnapshot (ex_snapshot ''x'' ''available'')) = (False, Some (External ''Throttling''))"
    by (simp_all add: checkListTagsForResourceMessage_def ex_tagged_cmd_def ex_cmd_def
          ex_client_def getARNString_def ex_instance_def ex_snapshot_def ex_tags_def
          ex_owned_tags_def ex_utils_def rt_name_text_def rt_time_text_def HasPrefix_def)
  note inst = describe_by_tags_owned [of ex_tagged_cmd ex_instances ex_utils ex_tagged_snapshots]
  from inst h have "DescribeDBInstancesByTags ex_utils ex_tagged_cmd =
        (case find (\<lambda>x. snd (checkListTagsForResourceMessage ex_utils ex_tagged_cmd
                              (V_DBInstance x)) \<noteq> None) ex_instances of
           None \<Rightarrow>
             (filter (\<lambda>x. fst (checkListTagsForResourceMessage ex_utils ex_tagged_cmd
                                (V_DBInstance x))) ex_instances, None)
         | Some x \<Rightarrow> ([], snd (checkListTagsForResourceMessage ex_utils ex_tagged_cmd
                                (V_DBInstance x))))"
    by blast
  then have i: "DescribeDBInstancesByTags ex_utils ex_tagged_cmd
                  = ([ex_instance ''a'' ''available'', ex_instance ''c'' ''creating''], None)"
    by (simp add: ex_instances_def chk)
  from inst k have "DescribeDBSnapshotsByTags ex_utils ex_tagged_cmd =
        (case find (\<lambda>x. snd (checkListTagsForResourceMessage ex_utils ex_tagged_cmd
                              (V_DBSnapshot x)) \<noteq> None) ex_tagged_snapshots of
           None \<Rightarrow>
             (filter (\<lambda>x. fst (checkListTagsForResourceMessage ex_utils ex_tagged_cmd
                                (V_DBSnapshot x))) ex_tagged_snapshots, None)
         | Some x \<Rightarrow> ([], snd (checkListTagsForResourceMessage ex_utils ex_tagged_cmd
                                (V_DBSnapshot x))))"
    by blast
  then have s: "DescribeDBSnapshotsByTags ex_utils ex_tagged_cmd = ([], Some (External ''Throttling''))"
    by (simp add: ex_tagged_snapshots_def chk)
  from h k i s show ?thesis by blast
qed

subsection \<open>Latest snapshot\<close>

lemma available_loop_filter:
  "available_loop xs acc = acc @ filter (\<lambda>s. Status s = ''available'') xs"
  by (induction xs arbitrary: acc) simp_all

text \<open>
  C4: when the describe call answers with a list, the latest-snapshot discovery returns
  the last element of the list of the snapshots whose status is \<open>available\<close>, in
  the order of the answer; when no snapshot has that status it fails with
  \<open>ErrSnapshotNotFound\<close>.
\<close>

theorem latest_snapshot_last_available:
  assumes "describeDBSnapshots c \<lparr>ds_DBInstanceIdentifier = Some dbIdentifier,
                                  ds_DBSnapshotIdentifier = None\<rparr> = Inr resp"
  shows "DescribeLatestDBSnapshot c dbIdentifier =
           (if filter (\<lambda>s. Status s = ''available'') resp = [] then Inl ErrSnapshotNotFound
            else Inr (last (filter (\<lambda>s. Status s = ''available'') resp)))"
  using assms
  by (simp add: DescribeLatestDBSnapshot_def available_loop_filter last_conv_nth Let_def
        del: One_nat_def)

theorem latest_snapshot_last_available_witness:
  "describeDBSnapshots (ex_cmd (ex_client [] ex_snapshots))
       \<lparr>ds_DBInstanceIdentifier = Some ''a'', ds_DBSnapshotIdentifier = None\<rparr> = Inr ex_snapshots
   \<and> DescribeLatestDBSnapshot (ex_cmd (ex_client [] ex_snapshots)) ''a''
       = Inr (ex_snapshot ''s3'' ''available'')
   \<and> describeDBSnapshots (ex_cmd (ex_client [] [ex_snapshot ''s2'' ''creating'']))
       \<lparr>ds_DBInstanceIdentifier = Some ''a'', ds_DBSnapshotIdentifier = None\<rparr>
       = Inr [ex_snapshot ''s2'' ''creating'']
   \<and> DescribeLatestDBSnapshot (ex_cmd (ex_client [] [ex_snapshot ''s2'' ''creating''])) ''a''
       = Inl ErrSnapshotNotFound"
proof -
  have h: "describeDBSnapshots (ex_cmd (ex_client [] ex_snapshots))
       \<lparr>ds_DBInstanceIdentifier = Some ''a'', ds_DBSnapshotIdentifier = None\<rparr> = Inr ex_snapshots"
    by (simp add: describeDBSnapshots_def ex_cmd_def ex_client_def)
  have f: "filter (\<lambda>s. Status s = ''available'') ex_snapshots
             = [ex_snapshot ''s1'' ''available'', ex_snapshot ''s3'' ''available'']"
    by (simp add: ex_snapshots_def ex_snapshot_def)
  have h': "describeDBSnapshots (ex_cmd (ex_client [] [ex_snapshot ''s2'' ''creating'']))
       \<lparr>ds_DBInstanceIdentifier = Some ''a'', ds_DBSnapshotIdentifier = None\<rparr>
       = Inr [ex_snapshot ''s2'' ''creating'']"
    by (simp add: describeDBSnapshots_def ex_cmd_def ex_client_def)
  have a: "DescribeLatestDBSnapshot (ex_cmd (ex_client [] ex_snapshots)) ''a''
             = Inr (ex_snapshot ''s3'' ''available'')"
    using latest_snapshot_last_available [OF h] by (simp add: f)
  have b: "DescribeLatestDBSnapshot (ex_cmd (ex_client [] [ex_snapshot ''s2'' ''creating''])) ''a''
             = Inl ErrSnapshotNotFound"
    using latest_snapshot_last_available [OF h'] by (simp add: ex_snapshot_def)
  from a b h h' show ?thesis by blast
qed

subsection \<open>Creation and deletion\<close>

lemma ownership_pair_getSpecifyTags: "ownership_pair u now (getSpecifyTags u now)"
  by (simp add: ownership_pair_def getSpecifyTags_def rt_name_text_def rt_time_text_def
        HasPrefix_refl)

text \<open>
  C9: the two creation calls, restore from a snapshot and create a snapshot, each send
  one request, and its tags are the list of \<open>getSpecifyTags\<close>: exactly two tags, the
  first with key \<open>rt_name\<close> and a value prefixed with the application name, the second
  with key \<open>rt_time\<close> and the time of the creation.
\<close>

theorem creation_calls_carry_tags:
  "creation_tags (snd (RestoreDBInstanceFromDBSnapshot u now c args tr))
     = creation_tags tr @ [getSpecifyTags u now]
   \<and> creation_tags (snd (CreateDBSnapshot u now c dbIdentifier tr))
     = creation_tags tr @ [getSpecifyTags u now]
   \<and> ownership_pair u now (getSpecifyTags u now)
   \<and> length (getSpecifyTags u now) = 2"
  by (simp add: RestoreDBInstanceFromDBSnapshot_def CreateDBSnapshot_def Let_def
        creation_tags_append ownership_pair_getSpecifyTags split: sum.splits)
     (simp add: getSpecifyTags_def)

lemma delete_snapshots_error:
  "fst (delete_snapshots c i xs tr) \<noteq> Some ErrRdsTypesNotFound"
  by (induction xs arbitrary: i tr) (auto simp: DeleteDBSnapshot_def Let_def split: sum.splits)

lemma delete_instances_error:
  "fst (delete_instances c i xs tr) \<noteq> Some ErrRdsTypesNotFound"
  by (induction xs arbitrary: i tr) (auto simp: DeleteDBInstance_def Let_def split: sum.splits)

text \<open>
  C10: given a value that is neither a list of instances nor a list of snapshots, the
  bulk deletion logs the text of \<open>ErrRdsTypesNotFound\<close>, makes no deletion call and
  returns the nil error; for no argument at all does it return \<open>ErrRdsTypesNotFound\<close>.
\<close>

theorem delete_other_type_succeeds:
  "(\<not> is_resource_list x \<longrightarrow>
      DeleteDBResources c x tr = (None, tr @ [LogErrorf ''%s'' [''RDS Types is not found'']])
      \<and> deletions (snd (DeleteDBResources c x tr)) = deletions tr)
   \<and> fst (DeleteDBResources c x tr) \<noteq> Some ErrRdsTypesNotFound"
  by (cases x)
     (simp_all add: DeleteDBResources_def is_resource_list_def Error_def deletions_append
        delete_snapshots_error delete_instances_error)

theorem delete_other_type_succeeds_witness:
  "\<not> is_resource_list (P_DBInstance (ex_instance ''a'' ''available''))
   \<and> DeleteDBResources (ex_cmd ex_failing) (P_DBInstance (ex_instance ''a'' ''available'')) []
       = (None, [LogErrorf ''%s'' [''RDS Types is not found'']])
   \<and> fst (DeleteDBResources (ex_cmd ex_failing) (L_DBInstance [ex_instance ''a'' ''available'']) [])
       = Some (External ''RequestError'')"
proof -
  have h: "\<not> is_resource_list (P_DBInstance (ex_instance ''a'' ''available''))"
    by (simp add: is_resource_list_def)
  have l: "fst (DeleteDBResources (ex_cmd ex_failing) (L_DBInstance [ex_instance ''a'' ''available'']) [])
       = Some (External ''RequestError'')"
    by (simp add: DeleteDBResources_def DeleteDBInstance_def ex_cmd_def ex_failing_def)
  from delete_other_type_succeeds [of "P_DBInstance (ex_instance ''a'' ''available'')"
      "ex_cmd ex_failing" "[]"] h l
  show ?thesis by simp
qed

subsection \<open>Result exporter\<close>

lemma queries_run_rows_loop: "queries_run (rows_loop rows raw tr) = queries_run tr"
  by (induction rows arbitrary: raw tr)
     (auto simp: queries_run_append Scan_def split: sum.splits option.splits prod.splits if_splits)

lemma writeCSVFile_counters:
  "n_query (snd (writeCSVFile s args w)) = n_query w"
  "n_now (snd (writeCSVFile s args w)) = n_now w"
  "queries_run (calls (snd (writeCSVFile s args w))) = queries_run (calls w)"
  by (simp_all add: writeCSVFile_def Let_def queries_run_append queries_run_rows_loop
        split: sum.splits)

text \<open>The signal of \<^verbatim>\<open>writeCSVFile\<close> tells whether \<^verbatim>\<open>Columns()\<close> failed, and
  nothing else: it does not depend on the file system.\<close>

lemma writeCSVFile_signal:
  "fst (writeCSVFile s args w) = (case Columns (Rows args) of Inl err \<Rightarrow> False | Inr cols \<Rightarrow> True)"
  by (simp add: writeCSVFile_def Let_def split: sum.splits)

lemma rows_loop_scanned:
  "\<forall>r \<in> set rows. length r = length raw \<Longrightarrow>
   csv_records (rows_loop (map Inr rows) raw tr) = csv_records tr @ map (map render) rows"
proof (induction rows arbitrary: raw tr)
  case Nil
  then show ?case by simp
next
  case (Cons r rows)
  then have "\<forall>r' \<in> set rows. length r' = length r" by simp
  with Cons.IH [of r] Cons.prems show ?case
    by (simp add: Scan_def csv_records_append)
qed

text \<open>
  C7: when the columns are read and every row is scanned, the records handed to the CSV
  writer are the comment line of the BOM mode if it is on, the header, and one record per
  row of the result set in which a nil value is the text \<open>null\<close>, four characters and
  not the empty string, and every other value is its text.
\<close>

theorem csv_rows_rendered:
  assumes "Columns (Rows args) = Inr cols"
    and "scans (Rows args) = map Inr rows"
    and "\<forall>r \<in> set rows. length r = length cols"
  shows "csv_records (calls (snd (writeCSVFile s args w))) =
           csv_records (calls w)
           @ (if Bom args then [[BOM @ ''# character encoding : utf-8 with BOM'']] else [])
           @ [cols] @ map (map render) rows
         \<and> render None = ''null'' \<and> length (render None) = 4
         \<and> (\<forall>bytes. render (Some bytes) = bytes)"
  using assms
  by (simp add: writeCSVFile_def Let_def csv_records_append rows_loop_scanned render_def)

theorem csv_rows_rendered_witness:
  "Columns (Rows ex_csv_args) = Inr [''id'', ''name'']
   \<and> scans (Rows ex_csv_args) = map Inr [[Some ''1'', Some ''a''], [Some ''2'', None]]
   \<and> list_all (\<lambda>r. length r = 2) [[Some ''1'', Some ''a''], [Some ''2'', None :: string option]]
   \<and> csv_records (calls (snd (writeCSVFile ex_sys ex_csv_args ex_io)))
       = [[''id'', ''name''], [''1'', ''a''], [''2'', ''null'']]"
proof -
  have c: "Columns (Rows ex_csv_args) = Inr [''id'', ''name'']"
    by (simp add: ex_csv_args_def ex_rows_def)
  have r: "scans (Rows ex_csv_args) = map Inr [[Some ''1'', Some ''a''], [Some ''2'', None]]"
    by (simp add: ex_csv_args_def ex_rows_def)
  have l: "\<forall>r \<in> set [[Some ''1'', Some ''a''], [Some ''2'', None :: string option]].
             length r = length [''id'', ''name'']"
    by simp
  from csv_rows_rendered [OF c r l, of ex_sys ex_io] c r show ?thesis
    by (simp add: ex_csv_args_def ex_io_def render_def)
qed

text \<open>
  C8: the CSV writer reports a failure to open, to truncate or to write the file as a
  failure. The code does not: on a file system where \<^verbatim>\<open>os.OpenFile\<close> and
  \<^verbatim>\<open>file.Truncate\<close> fail, the writer returns true.
\<close>

theorem writeCSVFile_open_failure_ignored:
  "os_OpenFile ex_sys_unwritable ''/out/q1-20150401-120000.csv'' = Some ''open: permission denied''
   \<and> file_Truncate ex_sys_unwritable ''/out/q1-20150401-120000.csv'' = Some ''invalid argument''
   \<and> writeCSVFile ex_sys_unwritable ex_csv_args ex_io =
       (True,
        ex_io\<lparr>calls := [OsOpenFile ''/out/q1-20150401-120000.csv'', FileTruncate,
                        CsvWrite [''id'', ''name''], CsvWrite [''1'', ''a''],
                        CsvWrite [''2'', ''null''], CsvFlush, FileClose]\<rparr>)"
  by (simp add: writeCSVFile_def ex_sys_unwritable_def ex_sys_def ex_csv_args_def ex_rows_def
        ex_io_def Scan_def render_def Let_def)

subsection \<open>Query executor\<close>

lemma export_result_counters:
  "n_query (export_result s u c q r w) = n_query w"
  "n_now (export_result s u c q r w) = n_now w"
  "queries_run (calls (export_result s u c q r w)) = queries_run (calls w)"
  by (simp_all add: export_result_def Let_def writeCSVFile_counters split: prod.splits)
     (metis snd_conv writeCSVFile_counters)+

lemma query_loop_failed:
  assumes "db_Query s (n_query w) (Sql q) = Inl e"
  shows "fst (query_loop s u c (q # rest) ds w) = (ds, Some (External e))"
    and "queries_run (calls (snd (query_loop s u c (q # rest) ds w))) = queries_run (calls w) @ [Sql q]"
  using assms by (simp_all add: Let_def queries_run_append)

lemma query_loop_succeeded:
  assumes "db_Query s (n_query w) (Sql q) = Inr r"
  shows "query_loop s u c (q # rest) ds w
           = query_loop s u c rest (ds @ [elapsed s (n_now w) 0]) (after_query s u c q r w)"
  using assms by (simp add: Let_def elapsed_def after_query_def)

lemma after_query_counters:
  "n_query (after_query s u c q r w) = n_query w + 1"
  "n_now (after_query s u c q r w) = n_now w + 2"
  "queries_run (calls (after_query s u c q r w)) = queries_run (calls w) @ [Sql q]"
  by (simp_all add: after_query_def Let_def export_result_counters queries_run_append)

lemma map_elapsed_Suc:
  "elapsed s n 0 # map (elapsed s (Suc (Suc n))) [0..<m] = map (elapsed s n) [0..<Suc m]"
proof -
  have "map (elapsed s (Suc (Suc n))) [0..<m] = map (elapsed s n) (map Suc [0..<m])"
    by (simp add: elapsed_def)
  also have "\<dots> = map (elapsed s n) [Suc 0..<Suc m]"
    by (simp only: map_Suc_upt)
  finally show ?thesis by (simp add: upt_conv_Cons del: upt_Suc)
qed

lemma query_loop_outcome:
  "fst (query_loop s u c qs ds w) =
     (case first_failure s (n_query w) qs of
        None \<Rightarrow> (ds @ map (elapsed s (n_now w)) [0..<length qs], None)
      | Some i \<Rightarrow>
          (ds @ map (elapsed s (n_now w)) [0..<i],
           (case db_Query s (n_query w + i) (Sql (qs ! i)) of
              Inl e \<Rightarrow> Some (External e) | Inr r \<Rightarrow> None)))
   \<and> queries_run (calls (snd (query_loop s u c qs ds w))) =
       queries_run (calls w) @
       map Sql (take (case first_failure s (n_query w) qs of None \<Rightarrow> length qs | Some i \<Rightarrow> Suc i) qs)"
proof (induction qs arbitrary: ds w)
  case Nil
  then show ?case by simp
next
  case (Cons q rest)
  show ?case
  proof (cases "db_Query s (n_query w) (Sql q)")
    case (Inl e)
    then show ?thesis using query_loop_failed [OF Inl, of u c rest ds] by simp
  next
    case (Inr r)
    note step = query_loop_succeeded [OF Inr, of u c rest ds]
    note IH = Cons.IH [of "ds @ [elapsed s (n_now w) 0]" "after_query s u c q r w",
        unfolded after_query_counters]
    show ?thesis
    proof (cases "first_failure s (n_query w + 1) rest")
      case None
      with IH Inr show ?thesis
        unfolding step by (simp add: map_elapsed_Suc del: upt_Suc)
    next
      case (Some i)
      with IH Inr show ?thesis
        unfolding step by (simp add: map_elapsed_Suc del: upt_Suc)
    qed
  qed
qed

text \<open>\<open>first_failure\<close> is the position of the first query that fails.\<close>

lemma first_failure_Some:
  "first_failure s n qs = Some i \<longleftrightarrow>
     i < length qs \<and> (\<exists>e. db_Query s (n + i) (Sql (qs ! i)) = Inl e)
     \<and> (\<forall>k < i. \<exists>r. db_Query s (n + k) (Sql (qs ! k)) = Inr r)"
proof (induction qs arbitrary: n i)
  case Nil
  then show ?case by simp
next
  case (Cons q rest)
  show ?case
  proof (cases "db_Query s n (Sql q)")
    case (Inl e)
    show ?thesis
    proof (cases i)
      case 0
      with Inl show ?thesis by simp
    next
      case (Suc j)
      with Inl show ?thesis by auto
    qed
  next
    case (Inr r)
    show ?thesis
    proof (cases i)
      case 0
      with Inr show ?thesis by simp
    next
      case (Suc j)
      have "(\<forall>k < Suc j. \<exists>r. db_Query s (n + k) (Sql ((q # rest) ! k)) = Inr r)
            \<longleftrightarrow> (\<forall>k < j. \<exists>r. db_Query s (n + 1 + k) (Sql (rest ! k)) = Inr r)"
        using Inr by (auto simp: less_Suc_eq_0_disj)
      with Suc Inr Cons.IH [of "n + 1" j] show ?thesis by auto
    qed
  qed
qed

lemma first_failure_None:
  "first_failure s n qs = None \<longleftrightarrow>
     (\<forall>k < length qs. \<exists>r. db_Query s (n + k) (Sql (qs ! k)) = Inr r)"
proof (induction qs arbitrary: n)
  case Nil
  then show ?case by simp
next
  case (Cons q rest)
  show ?case
  proof (cases "db_Query s n (Sql q)")
    case (Inl e)
    then have "\<not> (\<exists>r. db_Query s (n + 0) (Sql ((q # rest) ! 0)) = Inr r)" by simp
    then have "\<not> (\<forall>k < length (q # rest). \<exists>r. db_Query s (n + k) (Sql ((q # rest) ! k)) = Inr r)"
      by (metis length_greater_0_conv list.distinct(1))
    with Inl show ?thesis by simp
  next
    case (Inr r)
    have "(\<forall>k < length (q # rest). \<exists>r. db_Query s (n + k) (Sql ((q # rest) ! k)) = Inr r)
          \<longleftrightarrow> (\<forall>k < length rest. \<exists>r. db_Query s (n + 1 + k) (Sql (rest ! k)) = Inr r)"
      using Inr by (auto simp: less_Suc_eq_0_disj)
    with Inr Cons.IH [of "n + 1"] show ?thesis by simp
  qed
qed

text \<open>
  C5: with a driver found and the connection opened, if the query at position \<open>i\<close>
  (counted from 0, so query number \<open>i + 1\<close>) is the first that fails, the executor
  runs the queries up to that one and no query after it, and returns the \<open>i\<close>
  durations of the queries before it, in their order, with the error of the query; if no
  query fails it runs them all in the order of the batch and returns one duration per
  query, in that order, with the nil error.
\<close>

theorem execute_partial_results:
  assumes "getDbOpenValues c args = (driver, dsn)" and "driver \<noteq> []"
    and "sql_Open s driver dsn = None"
  shows "(first_failure s (n_query w) (Queries args) = Some i \<longrightarrow>
            fst (fst (ExecuteSQL s u c args w)) = map (elapsed s (n_now w)) [0..<i]
            \<and> length (fst (fst (ExecuteSQL s u c args w))) = i
            \<and> (\<exists>e. db_Query s (n_query w + i) (Sql (Queries args ! i)) = Inl e
                   \<and> snd (fst (ExecuteSQL s u c args w)) = Some (External e))
            \<and> queries_run (calls (snd (ExecuteSQL s u c args w))) =
                queries_run (calls w) @ map Sql (take (Suc i) (Queries args)))
         \<and> (first_failure s (n_query w) (Queries args) = None \<longrightarrow>
            fst (ExecuteSQL s u c args w) =
              (map (elapsed s (n_now w)) [0..<length (Queries args)], None)
            \<and> length (fst (fst (ExecuteSQL s u c args w))) = length (Queries args)
            \<and> queries_run (calls (snd (ExecuteSQL s u c args w))) =
                queries_run (calls w) @ map Sql (Queries args))"
proof -
  let ?w = "w\<lparr>calls := calls w @ [SqlOpen driver dsn]\<rparr>"
  obtain res w' where ql: "query_loop s u c (Queries args) [] ?w = (res, w')"
    by (cases "query_loop s u c (Queries args) [] ?w")
  have ex: "ExecuteSQL s u c args w = (res, w'\<lparr>calls := calls w' @ [DbClose]\<rparr>)"
    using assms ql by (simp add: ExecuteSQL_def Let_def)
  note out = query_loop_outcome [of s u c "Queries args" "[]" ?w, unfolded ql]
  show ?thesis
  proof (cases "first_failure s (n_query w) (Queries args)")
    case None
    with out show ?thesis by (simp add: ex queries_run_append)
  next
    case (Some j)
    then obtain e where "db_Query s (n_query w + j) (Sql (Queries args ! j)) = Inl e"
      by (auto simp: first_failure_Some)
    with Some out show ?thesis by (auto simp: ex queries_run_append)
  qed
qed

theorem execute_partial_results_witness:
  "getDbOpenValues (ex_cmd ex_failing) (ex_args ''mysql'' ex_batch)
     = (''mysql'', ''user:pass@tcp(host:3306)/'')
   \<and> ''mysql'' \<noteq> []
   \<and> sql_Open ex_sys ''mysql'' ''user:pass@tcp(host:3306)/'' = None
   \<and> first_failure ex_sys (n_query ex_io) (Queries (ex_args ''mysql'' ex_batch)) = Some 1
   \<and> length (fst (fst (ExecuteSQL ex_sys ex_utils (ex_cmd ex_failing) (ex_args ''mysql'' ex_batch) ex_io))) = 1
   \<and> snd (fst (ExecuteSQL ex_sys ex_utils (ex_cmd ex_failing) (ex_args ''mysql'' ex_batch) ex_io)) \<noteq> None
   \<and> queries_run (calls (snd (ExecuteSQL ex_sys ex_utils (ex_cmd ex_failing)
                                 (ex_args ''mysql'' ex_batch) ex_io)))
       = [''select 1'', ''bad'']
   \<and> getDbOpenValues (ex_cmd ex_failing) (ex_args ''mysql'' ex_batch_ok)
     = (''mysql'', ''user:pass@tcp(host:3306)/'')
   \<and> first_failure ex_sys (n_query ex_io) (Queries (ex_args ''mysql'' ex_batch_ok)) = None
   \<and> fst (ExecuteSQL ex_sys ex_utils (ex_cmd ex_failing) (ex_args ''mysql'' ex_batch_ok) ex_io)
       = ([1000, 1000], None)
   \<and> queries_run (calls (snd (ExecuteSQL ex_sys ex_utils (ex_cmd ex_failing)
                                 (ex_args ''mysql'' ex_batch_ok) ex_io)))
       = [''select 1'', ''select 3'']"
proof -
  have g: "getDbOpenValues (ex_cmd ex_failing) (ex_args ''mysql'' ex_batch)
     = (''mysql'', ''user:pass@tcp(host:3306)/'')"
    by code_simp
  have d: "''mysql'' \<noteq> []" by simp
  have o: "sql_Open ex_sys ''mysql'' ''user:pass@tcp(host:3306)/'' = None"
    by (simp add: ex_sys_def)
  have f: "first_failure ex_sys (n_query ex_io) (Queries (ex_args ''mysql'' ex_batch)) = Some 1"
    by (simp add: ex_sys_def ex_io_def ex_args_def ex_batch_def)
  have q: "queries_run (calls ex_io) @ map Sql (take (Suc 1) (Queries (ex_args ''mysql'' ex_batch)))
             = [''select 1'', ''bad'']"
    by (simp add: ex_io_def ex_args_def ex_batch_def)
  from execute_partial_results [OF g d o, of ex_io 1 ex_utils] f
  have "length (fst (fst (ExecuteSQL ex_sys ex_utils (ex_cmd ex_failing) (ex_args ''mysql'' ex_batch) ex_io))) = 1
    \<and> snd (fst (ExecuteSQL ex_sys ex_utils (ex_cmd ex_failing) (ex_args ''mysql'' ex_batch) ex_io)) \<noteq> None
    \<and> queries_run (calls (snd (ExecuteSQL ex_sys ex_utils (ex_cmd ex_failing)
                                 (ex_args ''mysql'' ex_batch) ex_io)))
       = queries_run (calls ex_io) @ map Sql (take (Suc 1) (Queries (ex_args ''mysql'' ex_batch)))"
    by auto
  note failing = this
  have g': "getDbOpenValues (ex_cmd ex_failing) (ex_args ''mysql'' ex_batch_ok)
     = (''mysql'', ''user:pass@tcp(host:3306)/'')"
    by code_simp
  have f': "first_failure ex_sys (n_query ex_io) (Queries (ex_args ''mysql'' ex_batch_ok)) = None"
    by (simp add: ex_sys_def ex_io_def ex_args_def ex_batch_ok_def)
  have e': "map (elapsed ex_sys (n_now ex_io)) [0..<length (Queries (ex_args ''mysql'' ex_batch_ok))]
              = [1000, 1000]"
    by (simp add: elapsed_def Sub_def ex_sys_def ex_io_def ex_args_def ex_batch_ok_def
          upt_conv_Cons)
  have q': "queries_run (calls ex_io) @ map Sql (Queries (ex_args ''mysql'' ex_batch_ok))
             = [''select 1'', ''select 3'']"
    by (simp add: ex_io_def ex_args_def ex_batch_ok_def)
  from execute_partial_results [OF g' d o, of ex_io 0 ex_utils] f'
  have "fst (ExecuteSQL ex_sys ex_utils (ex_cmd ex_failing) (ex_args ''mysql'' ex_batch_ok) ex_io)
       = (map (elapsed ex_sys (n_now ex_io)) [0..<length (Queries (ex_args ''mysql'' ex_batch_ok))],
          None)
    \<and> queries_run (calls (snd (ExecuteSQL ex_sys ex_utils (ex_cmd ex_failing)
                                 (ex_args ''mysql'' ex_batch_ok) ex_io)))
       = queries_run (calls ex_io) @ map Sql (Queries (ex_args ''mysql'' ex_batch_ok))"
    by blast
  then have ok:
    "fst (ExecuteSQL ex_sys ex_utils (ex_cmd ex_failing) (ex_args ''mysql'' ex_batch_ok) ex_io)
       = ([1000, 1000], None)
    \<and> queries_run (calls (snd (ExecuteSQL ex_sys ex_utils (ex_cmd ex_failing)
                                 (ex_args ''mysql'' ex_batch_ok) ex_io)))
       = [''select 1'', ''select 3'']"
    by (simp only: e' q')
  from failing q have "length (fst (fst (ExecuteSQL ex_sys ex_utils (ex_cmd ex_failing) (ex_args ''mysql'' ex_batch) ex_io))) = 1
    \<and> snd (fst (ExecuteSQL ex_sys ex_utils (ex_cmd ex_failing) (ex_args ''mysql'' ex_batch) ex_io)) \<noteq> None
    \<and> queries_run (calls (snd (ExecuteSQL ex_sys ex_utils (ex_cmd ex_failing)
                                 (ex_args ''mysql'' ex_batch) ex_io)))
       = [''select 1'', ''bad'']"
    by simp
  with g d o f g' f' ok show ?thesis by blast
qed

text \<open>
  C6, as amended: the engine name is matched in lower case against the four driver
  names in the order \<open>mysql\<close>, \<open>oracle\<close>, \<open>sqlserver\<close>, \<open>postgres\<close>, and the first
  name it contains decides: \<open>mysql\<close> gives the driver \<open>mysql\<close> and the connection
  string \<open>user:pass@tcp(host:port)/\<close>, each of the other three gives the driver of
  that name and the empty connection string; for an engine that contains none of the
  four the executor returns \<open>ErrDriverNotFound\<close> and opens no connection.
\<close>

theorem driver_derivation_first_match:
  "(Contains (ToLower (Engine args)) ''mysql'' \<longrightarrow>
      getDbOpenValues c args =
        (''mysql'',
         User (RDSConfig c) @ '':'' @ Pass (RDSConfig c) @ ''@tcp('' @ Address (Endpoint args)
           @ '':'' @ itoa (Port (Endpoint args)) @ '')/''))
   \<and> (\<not> Contains (ToLower (Engine args)) ''mysql'' \<and> Contains (ToLower (Engine args)) ''oracle'' \<longrightarrow>
      getDbOpenValues c args = (''oracle'', []))
   \<and> (\<not> Contains (ToLower (Engine args)) ''mysql'' \<and> \<not> Contains (ToLower (Engine args)) ''oracle''
      \<and> Contains (ToLower (Engine args)) ''sqlserver'' \<longrightarrow>
      getDbOpenValues c args = (''sqlserver'', []))
   \<and> (\<not> Contains (ToLower (Engine args)) ''mysql'' \<and> \<not> Contains (ToLower (Engine args)) ''oracle''
      \<and> \<not> Contains (ToLower (Engine args)) ''sqlserver''
      \<and> Contains (ToLower (Engine args)) ''postgres'' \<longrightarrow>
      getDbOpenValues c args = (''postgres'', []))
   \<and> (\<not> Contains (ToLower (Engine args)) ''mysql'' \<and> \<not> Contains (ToLower (Engine args)) ''oracle''
      \<and> \<not> Contains (ToLower (Engine args)) ''sqlserver''
      \<and> \<not> Contains (ToLower (Engine args)) ''postgres'' \<longrightarrow>
      fst (ExecuteSQL s u c args w) = ([], Some ErrDriverNotFound)
      \<and> connections (calls (snd (ExecuteSQL s u c args w))) = connections (calls w)
      \<and> queries_run (calls (snd (ExecuteSQL s u c args w))) = queries_run (calls w))"
  by (simp add: getDbOpenValues_def ExecuteSQL_def Let_def connections_append queries_run_append)

theorem driver_derivation_first_match_witness:
  "Contains (ToLower (Engine (ex_args ''MySQL-5.7'' []))) ''mysql''
   \<and> getDbOpenValues (ex_cmd ex_failing) (ex_args ''MySQL-5.7'' [])
       = (''mysql'', ''user:pass@tcp(host:3306)/'')
   \<and> \<not> Contains (ToLower (Engine (ex_args ''oracle-se'' []))) ''mysql''
   \<and> Contains (ToLower (Engine (ex_args ''oracle-se'' []))) ''oracle''
   \<and> getDbOpenValues (ex_cmd ex_failing) (ex_args ''oracle-se'' []) = (''oracle'', [])
   \<and> Contains (ToLower (Engine (ex_args ''sqlserver-ex'' []))) ''sqlserver''
   \<and> getDbOpenValues (ex_cmd ex_failing) (ex_args ''sqlserver-ex'' []) = (''sqlserver'', [])
   \<and> Contains (ToLower (Engine (ex_args ''postgres'' []))) ''postgres''
   \<and> getDbOpenValues (ex_cmd ex_failing) (ex_args ''postgres'' []) = (''postgres'', [])
   \<and> \<not> Contains (ToLower (Engine (ex_args ''aurora'' ex_batch))) ''mysql''
   \<and> \<not> Contains (ToLower (Engine (ex_args ''aurora'' ex_batch))) ''oracle''
   \<and> \<not> Contains (ToLower (Engine (ex_args ''aurora'' ex_batch))) ''sqlserver''
   \<and> \<not> Contains (ToLower (Engine (ex_args ''aurora'' ex_batch))) ''postgres''
   \<and> fst (ExecuteSQL ex_sys ex_utils (ex_cmd ex_failing) (ex_args ''aurora'' ex_batch) ex_io)
       = ([], Some ErrDriverNotFound)
   \<and> connections (calls (snd (ExecuteSQL ex_sys ex_utils (ex_cmd ex_failing)
                                 (ex_args ''aurora'' ex_batch) ex_io))) = []"
proof -
  have m: "Contains (ToLower (Engine (ex_args ''MySQL-5.7'' []))) ''mysql''"
    by code_simp
  have dsn: "User (RDSConfig (ex_cmd ex_failing)) @ '':'' @ Pass (RDSConfig (ex_cmd ex_failing))
        @ ''@tcp('' @ Address (Endpoint (ex_args ''MySQL-5.7'' []))
        @ '':'' @ itoa (Port (Endpoint (ex_args ''MySQL-5.7'' []))) @ '')/''
      = ''user:pass@tcp(host:3306)/''"
    by code_simp
  have o: "\<not> Contains (ToLower (Engine (ex_args ''oracle-se'' []))) ''mysql''"
    "Contains (ToLower (Engine (ex_args ''oracle-se'' []))) ''oracle''"
    by code_simp+
  have a: "\<not> Contains (ToLower (Engine (ex_args ''aurora'' ex_batch))) ''mysql''"
    "\<not> Contains (ToLower (Engine (ex_args ''aurora'' ex_batch))) ''oracle''"
    "\<not> Contains (ToLower (Engine (ex_args ''aurora'' ex_batch))) ''sqlserver''"
    "\<not> Contains (ToLower (Engine (ex_args ''aurora'' ex_batch))) ''postgres''"
    by code_simp+
  have e: "connections (calls ex_io) = []"
    by (simp add: ex_io_def)
  from driver_derivation_first_match [of "ex_args ''MySQL-5.7'' []" "ex_cmd ex_failing"] m dsn
  have 1: "getDbOpenValues (ex_cmd ex_failing) (ex_args ''MySQL-5.7'' [])
       = (''mysql'', ''user:pass@tcp(host:3306)/'')"
    by simp
  from driver_derivation_first_match [of "ex_args ''oracle-se'' []" "ex_cmd ex_failing"] o
  have 2: "getDbOpenValues (ex_cmd ex_failing) (ex_args ''oracle-se'' []) = (''oracle'', [])"
    by blast
  from driver_derivation_first_match
         [of "ex_args ''aurora'' ex_batch" "ex_cmd ex_failing" ex_sys ex_utils ex_io] a e
  have 3: "fst (ExecuteSQL ex_sys ex_utils (ex_cmd ex_failing) (ex_args ''aurora'' ex_batch) ex_io)
       = ([], Some ErrDriverNotFound)
   \<and> connections (calls (snd (ExecuteSQL ex_sys ex_utils (ex_cmd ex_failing)
                                 (ex_args ''aurora'' ex_batch) ex_io))) = []"
    by simp
  have ss: "\<not> Contains (ToLower (Engine (ex_args ''sqlserver-ex'' []))) ''mysql''"
    "\<not> Contains (ToLower (Engine (ex_args ''sqlserver-ex'' []))) ''oracle''"
    "Contains (ToLower (Engine (ex_args ''sqlserver-ex'' []))) ''sqlserver''"
    by code_simp+
  have pg: "\<not> Contains (ToLower (Engine (ex_args ''postgres'' []))) ''mysql''"
    "\<not> Contains (ToLower (Engine (ex_args ''postgres'' []))) ''oracle''"
    "\<not> Contains (ToLower (Engine (ex_args ''postgres'' []))) ''sqlserver''"
    "Contains (ToLower (Engine (ex_args ''postgres'' []))) ''postgres''"
    by code_simp+
  from driver_derivation_first_match [of "ex_args ''sqlserver-ex'' []" "ex_cmd ex_failing"] ss
  have 4: "getDbOpenValues (ex_cmd ex_failing) (ex_args ''sqlserver-ex'' []) = (''sqlserver'', [])"
    by blast
  from driver_derivation_first_match [of "ex_args ''postgres'' []" "ex_cmd ex_failing"] pg
  have 5: "getDbOpenValues (ex_cmd ex_failing) (ex_args ''postgres'' []) = (''postgres'', [])"
    by blast
  from m o a ss pg 1 2 3 4 5 show ?thesis by blast
qed

text \<open>
  C6 as stated fails on an engine name that contains two of the driver names: the engine
  \<open>oracle-mysql\<close> contains \<open>oracle\<close>, and the driver is \<open>mysql\<close> with a
  connection string that is not empty.
\<close>

theorem driver_derivation_oracle_mysql:
  "Contains (ToLower (Engine (ex_args ''oracle-mysql'' []))) ''oracle''
   \<and> getDbOpenValues (ex_cmd ex_failing) (ex_args ''oracle-mysql'' [])
       = (''mysql'', ''user:pass@tcp(host:3306)/'')"
  by code_simp


end
